theory Spec2Isabelle
  imports Complex_Main "HOL-Library.Sublist"
begin

section \<open>JavaScript numbers\<close>

text \<open>
  The sound instance computes with JavaScript numbers. A number is modelled as a finite
  real, one of the two infinities, or NaN. Finite arithmetic is exact (rounding of
  doubles is not modelled) and the two zeros are identified; everything the code
  depends on beyond that (NaN from \<open>x % 0\<close>, \<open>Infinity % d\<close>, \<open>0 * Infinity\<close>, the
  falsiness of \<open>0\<close> and \<open>NaN\<close>, comparisons with NaN being false) is written out.
\<close>

datatype jsnum = Fin real | NaN | PInf | NInf

fun js_neg :: "jsnum \<Rightarrow> jsnum" where
  "js_neg (Fin x) = Fin (- x)"
| "js_neg NaN = NaN"
| "js_neg PInf = NInf"
| "js_neg NInf = PInf"

fun js_add :: "jsnum \<Rightarrow> jsnum \<Rightarrow> jsnum" where
  "js_add (Fin x) (Fin y) = Fin (x + y)"
| "js_add NaN _ = NaN"
| "js_add _ NaN = NaN"
| "js_add PInf NInf = NaN"
| "js_add NInf PInf = NaN"
| "js_add PInf _ = PInf"
| "js_add NInf _ = NInf"
| "js_add _ PInf = PInf"
| "js_add _ NInf = NInf"

definition js_sub :: "jsnum \<Rightarrow> jsnum \<Rightarrow> jsnum" where
  "js_sub a b = js_add a (js_neg b)"

text \<open>The sign of a number that is not NaN: \<open>-1\<close>, \<open>0\<close> or \<open>1\<close>.\<close>

fun js_sign :: "jsnum \<Rightarrow> real" where
  "js_sign (Fin x) = sgn x"
| "js_sign PInf = 1"
| "js_sign NInf = - 1"
| "js_sign NaN = 0"

fun js_mul :: "jsnum \<Rightarrow> jsnum \<Rightarrow> jsnum" where
  "js_mul (Fin x) (Fin y) = Fin (x * y)"
| "js_mul NaN _ = NaN"
| "js_mul _ NaN = NaN"
| "js_mul a b =
     (if js_sign a * js_sign b = 0 then NaN
      else if js_sign a * js_sign b > 0 then PInf else NInf)"

text \<open>
  The remainder \<open>x % d\<close> of two finite numbers with \<open>d \<noteq> 0\<close>: it has the sign of the
  dividend and a magnitude below that of the divisor (the quotient is truncated).
\<close>

definition fmod :: "real \<Rightarrow> real \<Rightarrow> real" where
  "fmod x d = sgn x * (\<bar>x\<bar> - \<bar>d\<bar> * of_int \<lfloor>\<bar>x\<bar> / \<bar>d\<bar>\<rfloor>)"

fun js_mod :: "jsnum \<Rightarrow> jsnum \<Rightarrow> jsnum" where
  "js_mod (Fin x) (Fin d) = (if d = 0 then NaN else Fin (fmod x d))"
| "js_mod (Fin x) PInf = Fin x"
| "js_mod (Fin x) NInf = Fin x"
| "js_mod _ _ = NaN"

text \<open>Truthiness of a number: \<open>0\<close> and NaN are falsy.\<close>

fun js_truthy :: "jsnum \<Rightarrow> bool" where
  "js_truthy (Fin x) = (x \<noteq> 0)"
| "js_truthy NaN = False"
| "js_truthy _ = True"

text \<open>A number that is neither NaN nor an infinity.\<close>

fun js_finite :: "jsnum \<Rightarrow> bool" where
  "js_finite (Fin x) = True"
| "js_finite _ = False"

text \<open>\<open>a || 0\<close> on numbers.\<close>

definition js_or0 :: "jsnum \<Rightarrow> jsnum" where
  "js_or0 a = (if js_truthy a then a else Fin 0)"

text \<open>\<open>a < b\<close>; false as soon as one side is NaN.\<close>

fun js_lt :: "jsnum \<Rightarrow> jsnum \<Rightarrow> bool" where
  "js_lt (Fin x) (Fin y) = (x < y)"
| "js_lt NaN _ = False"
| "js_lt _ NaN = False"
| "js_lt NInf NInf = False"
| "js_lt NInf _ = True"
| "js_lt _ NInf = False"
| "js_lt PInf _ = False"
| "js_lt _ PInf = True"

text \<open>\<open>a <= b\<close> and \<open>a >= b\<close>; false as soon as one side is NaN.\<close>

definition js_le :: "jsnum \<Rightarrow> jsnum \<Rightarrow> bool" where
  "js_le a b = (a \<noteq> NaN \<and> b \<noteq> NaN \<and> \<not> js_lt b a)"

definition js_ge :: "jsnum \<Rightarrow> jsnum \<Rightarrow> bool" where
  "js_ge a b = js_le b a"

text \<open>\<open>Math.max(a, b)\<close>: NaN as soon as one argument is NaN.\<close>

definition js_max :: "jsnum \<Rightarrow> jsnum \<Rightarrow> jsnum" where
  "js_max a b = (if a = NaN \<or> b = NaN then NaN else if js_lt a b then b else a)"

text \<open>
  \<open>Number(v)\<close> for a value that is a number, \<open>null\<close> or \<open>undefined\<close>. A field that may
  hold \<open>null\<close> (or an option that may be \<open>undefined\<close>) is a \<open>jsnum option\<close>;
  \<open>null\<close> converts to \<open>0\<close> and \<open>undefined\<close> to NaN.
\<close>

fun num_of_null :: "jsnum option \<Rightarrow> jsnum" where
  "num_of_null None = Fin 0"
| "num_of_null (Some v) = v"

fun num_of_undefined :: "jsnum option \<Rightarrow> jsnum" where
  "num_of_undefined None = NaN"
| "num_of_undefined (Some v) = v"

section \<open>The helper capTime\<close>

text \<open>
  \<^verbatim>\<open>var capTime = function (time, duration) { return (time % duration) || 0; };\<close>
\<close>

definition capTime :: "jsnum \<Rightarrow> jsnum \<Rightarrow> jsnum" where
  "capTime time duration = js_or0 (js_mod time duration)"

section \<open>Data model of the Web Audio sound instance\<close>

text \<open>
  The model covers the first variant of \<open>pc.SoundInstance\<close> (the one built when
  \<open>pc.SoundManager.hasAudioContext()\<close> holds) together with the members that
  \<open>pc.extend\<close> and \<open>Object.defineProperty\<close> add for every variant.
\<close>

text \<open>\<open>STATE_PLAYING = 0\<close>, \<open>STATE_PAUSED = 1\<close>, \<open>STATE_STOPPED = 2\<close>.\<close>

datatype pstate = Playing | Paused | Stopped

text \<open>The instance events handed to \<open>fire\<close>.\<close>

datatype event = EvReady | EvPlay | EvPause | EvResume | EvStop | EvEnd

text \<open>
  Audio nodes by identity: the gain node made by \<open>_initializeNodes\<close>, the context's
  destination, the buffer sources made by \<open>_createSource\<close> (numbered in order of
  creation) and the nodes of a chain that a caller created (processing nodes, with an
  input and an output). The destination has no output and a buffer source has no input.
  The edges a caller makes between its own nodes are not part of the model.
\<close>

datatype node = Gain | Destination | Source nat | External nat

fun has_outputs :: "node \<Rightarrow> bool" where
  "has_outputs Destination = False"
| "has_outputs _ = True"

fun has_inputs :: "node \<Rightarrow> bool" where
  "has_inputs (Source n) = False"
| "has_inputs _ = True"

fun is_external :: "node \<Rightarrow> bool" where
  "is_external (External n) = True"
| "is_external _ = False"

text \<open>
  What the code can raise. A \<open>TypeError\<close> when it reads \<open>this._sound.duration\<close> with
  \<open>_sound\<close> null, or when \<open>start\<close> is given a number that is not finite; an
  \<open>InvalidStateError\<close> when \<open>start\<close> is called on a source that was started before;
  a \<open>RangeError\<close> when \<open>start\<close> is given a negative number; the
  \<open>InvalidAccessError\<close> of \<open>AudioNode.disconnect(node)\<close> when no connection to that node
  exists; the \<open>IndexSizeError\<close> of \<open>AudioNode.connect(node)\<close> when the node connected
  from has no output or the node connected to has no input. Writes of audio parameters
  (\<open>gain.value\<close>, \<open>playbackRate.value\<close>, \<open>loop\<close>, \<open>loopStart\<close>, \<open>loopEnd\<close>) are taken
  to succeed. \<open>source.stop(0)\<close> raises only on a source that was never started; the
  instance calls it in the Playing state only, where the source has been started (lemma
  \<open>playing_started_run\<close>), so it is taken to succeed.
\<close>

datatype error = TypeError | InvalidStateError | RangeError | InvalidAccessError | IndexSizeError

text \<open>
  The calls made on the audio context, in order: \<open>source.start(0, offset[, duration])\<close>
  and \<open>source.stop(0)\<close> on the source with the given number, and the connections made
  and removed between nodes.
\<close>

datatype bcall =
    Start nat jsnum "jsnum option"
  | StopNow nat
  | Connect node node
  | Disconnect node node

text \<open>
  A \<open>pc.Sound\<close> as the instance reads it: its \<open>duration\<close> and its \<open>buffer\<close>, null
  until decoded and otherwise known by \<open>buffer.duration\<close>.
\<close>

record sound =
  s_duration :: jsnum
  s_buffer :: "jsnum option"

text \<open>
  An \<open>AudioBufferSourceNode\<close>, with the fields the instance writes, and whether
  \<open>start\<close> has been called on it.
\<close>

record bsource =
  src_id :: nat
  started :: bool
  buffer_duration :: jsnum
  loopStart :: jsnum
  loopEnd :: jsnum
  src_loop :: bool
  playbackRate :: jsnum

text \<open>
  What an operation reads from the manager at the time of the call:
  \<open>manager.context.currentTime\<close>, \<open>manager.volume\<close> and \<open>manager.suspended\<close>.
\<close>

record manager =
  ctx_currentTime :: jsnum
  m_volume :: jsnum
  m_suspended :: bool

text \<open>The constructor's \<open>options\<close>; \<open>None\<close> is \<open>undefined\<close>.\<close>

record options =
  o_volume :: "jsnum option"
  o_pitch :: "jsnum option"
  o_loop :: "bool option"
  o_startTime :: "jsnum option"
  o_duration :: "jsnum option"

text \<open>
  The instance. A field \<open>u_x\<close> is the source's \<open>this._x\<close>. Beyond the source's fields
  the record keeps what the instance does to its surroundings: \<open>gain_value\<close> is
  \<open>this.gain.gain.value\<close>, \<open>edges\<close> the connections between audio nodes,
  \<open>subscribed\<close> whether the four manager handlers are registered
  (\<open>manager.on\<close> / \<open>manager.off\<close>), \<open>fired\<close> the events fired so far, \<open>calls\<close> the
  calls made on the audio context so far, and \<open>next_source\<close> the number of the next
  buffer source. Listeners of the instance's events are taken not to touch the instance.
\<close>

record sound_instance =
  u_volume :: jsnum
  u_pitch :: jsnum
  u_loop :: bool
  u_sound :: "sound option"
  u_state :: pstate
  u_suspended :: bool
  u_suspendEndEvent :: bool
  u_suspendInstanceEvents :: bool
  u_startTime :: jsnum
  u_duration :: jsnum
  u_startedAt :: jsnum
  u_startOffset :: "jsnum option"
  u_currentTime :: jsnum
  u_calculatedCurrentTimeAt :: jsnum
  u_playWhenLoaded :: bool
  u_firstNode :: "node option"
  u_lastNode :: "node option"
  source :: "bsource option"
  gain_value :: jsnum
  edges :: "(node \<times> node) set"
  subscribed :: bool
  fired :: "event list"
  calls :: "bcall list"
  next_source :: nat

text \<open>
  \<open>this._inputNode\<close> and \<open>this._connectorNode\<close> are both assigned the gain node in
  \<open>_initializeNodes\<close> and never again.
\<close>

definition inputNode :: node where
  "inputNode = Gain"

definition connectorNode :: node where
  "connectorNode = Gain"

text \<open>
  Modelled from the spec: \<open>pc.math.clamp\<close> is not under src/. The spec says the volume
  is clamped to \<open>[0,1]\<close>, out-of-range inputs going to the nearest bound.
\<close>

definition clamp :: "jsnum \<Rightarrow> jsnum \<Rightarrow> jsnum \<Rightarrow> jsnum" where
  "clamp v lo hi = (if js_ge v hi then hi else if js_le v lo then lo else v)"

section \<open>Calls into the audio context\<close>

definition fire :: "event \<Rightarrow> sound_instance \<Rightarrow> sound_instance" where
  "fire e s = s\<lparr>fired := fired s @ [e]\<rparr>"

text \<open>
  \<open>a.connect(b)\<close>. A connection made: connecting twice is the same as connecting once.
\<close>

definition connect_edge :: "node \<Rightarrow> node \<Rightarrow> sound_instance \<Rightarrow> sound_instance" where
  "connect_edge a b s =
     s\<lparr>edges := insert (a, b) (edges s), calls := calls s @ [Connect a b]\<rparr>"

text \<open>The call raises when \<open>a\<close> has no output or \<open>b\<close> has no input.\<close>

definition connect :: "node \<Rightarrow> node \<Rightarrow> sound_instance \<Rightarrow> error + sound_instance" where
  "connect a b s =
     (if has_outputs a \<and> has_inputs b then Inr (connect_edge a b s)
      else Inl IndexSizeError)"

text \<open>\<open>a.disconnect(b)\<close>: raises when \<open>a\<close> is not connected to \<open>b\<close>.\<close>

definition disconnect :: "node \<Rightarrow> node \<Rightarrow> sound_instance \<Rightarrow> error + sound_instance" where
  "disconnect a b s =
     (if (a, b) \<in> edges s
      then Inr (s\<lparr>edges := edges s - {(a, b)}, calls := calls s @ [Disconnect a b]\<rparr>)
      else Inl InvalidAccessError)"

text \<open>
  What \<open>start(0, offset[, duration])\<close> raises on a buffer source, if anything: the
  arguments must be finite (checked when they are converted), the source must not have
  been started, and the arguments must not be negative.
\<close>

definition start_error :: "jsnum \<Rightarrow> jsnum option \<Rightarrow> bsource \<Rightarrow> error option" where
  "start_error offset dur src =
     (if \<not> js_finite offset then Some TypeError
      else if (case dur of None \<Rightarrow> False | Some d \<Rightarrow> \<not> js_finite d) then Some TypeError
      else if started src then Some InvalidStateError
      else if js_lt offset (Fin 0) then Some RangeError
      else if (case dur of None \<Rightarrow> False | Some d \<Rightarrow> js_lt d (Fin 0)) then Some RangeError
      else None)"

text \<open>
  \<open>this.source.start(0, offset[, duration])\<close>; on \<open>null\<close> the call itself is a
  \<open>TypeError\<close>.
\<close>

definition source_start ::
  "jsnum \<Rightarrow> jsnum option \<Rightarrow> sound_instance \<Rightarrow> error + sound_instance" where
  "source_start offset dur s =
     (case source s of
        None \<Rightarrow> Inl TypeError
      | Some src \<Rightarrow>
          (case start_error offset dur src of
             Some e \<Rightarrow> Inl e
           | None \<Rightarrow>
               Inr (s\<lparr>source := Some (src\<lparr>started := True\<rparr>),
                      calls := calls s @ [Start (src_id src) offset dur]\<rparr>)))"

text \<open>\<open>this.source.stop(0)\<close>.\<close>

definition source_stop :: "sound_instance \<Rightarrow> sound_instance" where
  "source_stop s =
     (case source s of
        None \<Rightarrow> s
      | Some src \<Rightarrow> s\<lparr>calls := calls s @ [StopNow (src_id src)]\<rparr>)"

section \<open>The instance's members\<close>

text \<open>The getters \<open>isPlaying\<close>, \<open>isPaused\<close>, \<open>isStopped\<close>, \<open>isSuspended\<close>.\<close>

definition isPlaying :: "sound_instance \<Rightarrow> bool" where
  "isPlaying s = (u_state s = Playing)"

definition isPaused :: "sound_instance \<Rightarrow> bool" where
  "isPaused s = (u_state s = Paused)"

definition isStopped :: "sound_instance \<Rightarrow> bool" where
  "isStopped s = (u_state s = Stopped)"

definition isSuspended :: "sound_instance \<Rightarrow> bool" where
  "isSuspended s = u_suspended s"

text \<open>The getter of \<open>duration\<close>.\<close>

definition duration_get :: "sound_instance \<Rightarrow> jsnum" where
  "duration_get s =
     (case u_sound s of
        None \<Rightarrow> Fin 0
      | Some sd \<Rightarrow>
          if js_truthy (u_duration s) then capTime (u_duration s) (s_duration sd)
          else s_duration sd)"

text \<open>
  \<open>_initializeNodes\<close>: the gain node of a fresh \<open>createGain()\<close> has gain \<open>1\<close>; the
  connector is connected to the destination. The gain node has an output and the
  destination an input, so this \<open>connect\<close> does not raise (lemma \<open>connect_own_nodes\<close>).
\<close>

definition initializeNodes :: "sound_instance \<Rightarrow> sound_instance" where
  "initializeNodes s = connect_edge connectorNode Destination (s\<lparr>gain_value := Fin 1\<rparr>)"

text \<open>
  \<open>_createSource\<close>. A fresh buffer source has \<open>loopStart = 0\<close>, \<open>loopEnd = 0\<close>,
  \<open>loop = false\<close> and \<open>playbackRate = 1\<close>. The value returned (\<open>this.source\<close>, or
  \<open>null\<close> without a sound) is the \<open>source\<close> field of the result; no caller uses it.
  A buffer source has an output and the input node (the gain node) an input, so this
  \<open>connect\<close> does not raise (lemma \<open>connect_own_nodes\<close>).
\<close>

definition createSource :: "sound_instance \<Rightarrow> sound_instance" where
  "createSource s =
     (case u_sound s of
        None \<Rightarrow> s
      | Some sd \<Rightarrow>
          (case s_buffer sd of
             None \<Rightarrow> s
           | Some bd \<Rightarrow>
               let n = next_source s;
                   ls = capTime (u_startTime s) bd;
                   le = (if js_truthy (u_duration s)
                         then js_max ls (capTime (js_add (u_startTime s) (u_duration s)) bd)
                         else Fin 0);
                   s1 = connect_edge (Source n) inputNode
                          (s\<lparr>source := Some \<lparr>src_id = n, started = False, buffer_duration = bd,
                                   loopStart = ls, loopEnd = le, src_loop = False,
                                   playbackRate = Fin 1\<rparr>,
                             next_source := Suc n\<rparr>)
               in if u_suspendInstanceEvents s1 then s1 else fire EvReady s1))"

text \<open>The setters of \<open>volume\<close>, \<open>loop\<close> and \<open>pitch\<close>; \<open>this.gain\<close> is never null.\<close>

definition volume_set :: "manager \<Rightarrow> jsnum \<Rightarrow> sound_instance \<Rightarrow> sound_instance" where
  "volume_set m volume s =
     (let v = clamp volume (Fin 0) (Fin 1)
      in s\<lparr>u_volume := v, gain_value := js_mul v (m_volume m)\<rparr>)"

definition loop_set :: "bool \<Rightarrow> sound_instance \<Rightarrow> sound_instance" where
  "loop_set loop s =
     (let s1 = s\<lparr>u_loop := loop\<rparr>
      in case source s1 of
           None \<Rightarrow> s1
         | Some src \<Rightarrow> s1\<lparr>source := Some (src\<lparr>src_loop := loop\<rparr>)\<rparr>)"

definition pitch_set :: "manager \<Rightarrow> jsnum \<Rightarrow> sound_instance \<Rightarrow> sound_instance" where
  "pitch_set m pitch s =
     (let old = u_pitch s;
          s1 = (if js_truthy (u_calculatedCurrentTimeAt s)
                then s\<lparr>u_currentTime :=
                         capTime (js_add (u_currentTime s)
                                    (js_mul (js_sub (ctx_currentTime m) (u_calculatedCurrentTimeAt s)) old))
                                 (duration_get s),
                       u_calculatedCurrentTimeAt := ctx_currentTime m\<rparr>
                else s);
          s2 = s1\<lparr>u_pitch := js_max (js_or0 pitch) (Fin 0.01)\<rparr>
      in case source s2 of
           None \<Rightarrow> s2
         | Some src \<Rightarrow> s2\<lparr>source := Some (src\<lparr>playbackRate := u_pitch s2\<rparr>)\<rparr>)"

text \<open>\<open>stop\<close>: the result is the value returned and the instance afterwards.\<close>

definition stop :: "sound_instance \<Rightarrow> bool \<times> sound_instance" where
  "stop s =
     (if u_state s = Stopped then (False, s)
      else if source s = None then (False, s)
      else
        let s1 = s\<lparr>subscribed := False, u_startedAt := Fin 0, u_startOffset := None,
                   u_playWhenLoaded := False, u_suspendEndEvent := True\<rparr>;
            s2 = (if u_state s1 = Playing then source_stop s1 else s1);
            s3 = createSource (s2\<lparr>u_state := Stopped\<rparr>);
            s4 = (if u_suspendInstanceEvents s3 then s3 else fire EvStop s3)
        in (True, s4))"

definition pause :: "manager \<Rightarrow> sound_instance \<Rightarrow> bool \<times> sound_instance" where
  "pause m s =
     (if u_state s \<noteq> Playing then (False, s)
      else if source s = None then (False, s)
      else
        let s1 = s\<lparr>u_state := Paused\<rparr>;
            s2 = s1\<lparr>u_currentTime :=
                      capTime (js_add (u_currentTime s1)
                                 (js_mul (js_sub (ctx_currentTime m) (u_calculatedCurrentTimeAt s1))
                                         (u_pitch s1)))
                              (duration_get s1),
                    u_calculatedCurrentTimeAt := ctx_currentTime m\<rparr>;
            s3 = createSource (source_stop (s2\<lparr>u_suspendEndEvent := True\<rparr>));
            s4 = s3\<lparr>u_playWhenLoaded := False, u_startOffset := None\<rparr>;
            s5 = (if u_suspendInstanceEvents s4 then s4 else fire EvPause s4)
        in (True, s5))"

text \<open>\<open>_onManagerSuspend\<close>, which \<open>play\<close> calls when the manager is suspended.\<close>

definition onManagerSuspend :: "manager \<Rightarrow> sound_instance \<Rightarrow> sound_instance" where
  "onManagerSuspend m s =
     (if isPlaying s \<and> \<not> u_suspended s
      then snd (pause m (s\<lparr>u_suspended := True\<rparr>))
      else s)"

text \<open>
  \<open>play\<close>. Reading \<open>this._sound.duration\<close> raises when \<open>_sound\<close> is null; nothing has
  been written since the implicit \<open>stop\<close> at that point. When \<open>start\<close> raises,
  \<open>_startOffset\<close> has been reset and nothing else.
\<close>

definition play :: "manager \<Rightarrow> sound_instance \<Rightarrow> (error + bool) \<times> sound_instance" where
  "play m s =
     (let s1 = (if u_state s \<noteq> Stopped then snd (stop s) else s)
      in case source s1 of
           None \<Rightarrow> (Inr False, s1)
         | Some src0 \<Rightarrow>
             (case u_sound s1 of
                None \<Rightarrow> (Inl TypeError, s1)
              | Some sd \<Rightarrow>
                  let offset0 = capTime (num_of_null (u_startOffset s1)) (duration_get s1);
                      offset = capTime (js_add (u_startTime s1) offset0) (s_duration sd);
                      s2 = s1\<lparr>u_startOffset := None\<rparr>
                  in case (if js_truthy (u_duration s2)
                           then source_start offset (Some (u_duration s2)) s2
                           else source_start offset None s2) of
                       Inl e \<Rightarrow> (Inl e, s2)
                     | Inr s3 \<Rightarrow>
                         let s4 = s3\<lparr>u_startedAt := js_sub (ctx_currentTime m) offset,
                                     u_currentTime := Fin 0,
                                     u_calculatedCurrentTimeAt := ctx_currentTime m,
                                     u_state := Playing,
                                     u_playWhenLoaded := False\<rparr>;
                             s5 = volume_set m (u_volume s4) s4;
                             s6 = loop_set (u_loop s5) s5;
                             s7 = pitch_set m (u_pitch s6) s6;
                             s8 = s7\<lparr>subscribed := True\<rparr>;
                             s9 = (if m_suspended m then onManagerSuspend m s8 else s8);
                             s10 = (if u_suspendInstanceEvents s9 then s9 else fire EvPlay s9)
                         in (Inr True, s10)))"

definition resume :: "manager \<Rightarrow> sound_instance \<Rightarrow> (error + bool) \<times> sound_instance" where
  "resume m s =
     (if u_state s \<noteq> Paused then (Inr False, s)
      else if source s = None then (Inr False, s)
      else
        case u_sound s of
          None \<Rightarrow> (Inl TypeError, s)
        | Some sd \<Rightarrow>
            let offset0 = capTime (js_add (u_startTime s) (u_currentTime s)) (s_duration sd);
                offset = (case u_startOffset s of
                            None \<Rightarrow> offset0
                          | Some so \<Rightarrow>
                              capTime (js_add (u_startTime s) (capTime so (duration_get s)))
                                      (s_duration sd));
                s1 = s\<lparr>u_startOffset := None\<rparr>
            in case (if js_truthy (u_duration s1)
                     then source_start offset (Some (u_duration s1)) s1
                     else source_start offset None s1) of
                 Inl e \<Rightarrow> (Inl e, s1)
               | Inr s2 \<Rightarrow>
                   let s3 = s2\<lparr>u_state := Playing\<rparr>;
                       s4 = volume_set m (u_volume s3) s3;
                       s5 = loop_set (u_loop s4) s4;
                       s6 = pitch_set m (u_pitch s5) s5;
                       s7 = s6\<lparr>u_playWhenLoaded := False\<rparr>;
                       s8 = (if u_suspendInstanceEvents s7 then s7 else fire EvResume s7)
                   in (Inr True, s8))"

text \<open>
  \<open>setExternalNodes\<close>. Without a first node the call logs an error and returns. A
  \<open>disconnect\<close> that raises leaves the instance as it was just before that call; a
  \<open>connect\<close> that raises does so after the node has been stored.
\<close>

definition setExternalNodes ::
  "node option \<Rightarrow> node option \<Rightarrow> sound_instance \<Rightarrow> (error + unit) \<times> sound_instance" where
  "setExternalNodes firstNode lastNode s =
     (case firstNode of
        None \<Rightarrow> (Inr (), s)
      | Some f \<Rightarrow>
          let l = (case lastNode of None \<Rightarrow> f | Some l' \<Rightarrow> l');
              speakers = Destination;
              r1 = (if u_firstNode s \<noteq> Some f
                    then (case (case u_firstNode s of
                                  Some old \<Rightarrow> disconnect connectorNode old s
                                | None \<Rightarrow> disconnect connectorNode speakers s) of
                            Inl e \<Rightarrow> (Inl e, s)
                          | Inr s' \<Rightarrow>
                              (case connect connectorNode f (s'\<lparr>u_firstNode := Some f\<rparr>) of
                                 Inl e \<Rightarrow> (Inl e, s'\<lparr>u_firstNode := Some f\<rparr>)
                               | Inr s'' \<Rightarrow> (Inr (), s'')))
                    else (Inr (), s))
          in case r1 of
               (Inl e, s1) \<Rightarrow> (Inl e, s1)
             | (Inr _, s1) \<Rightarrow>
                 if u_lastNode s1 \<noteq> Some l
                 then (case (case u_lastNode s1 of
                               Some old \<Rightarrow> disconnect old speakers s1
                             | None \<Rightarrow> Inr s1) of
                         Inl e \<Rightarrow> (Inl e, s1)
                       | Inr s2 \<Rightarrow>
                           (case connect l speakers (s2\<lparr>u_lastNode := Some l\<rparr>) of
                              Inl e \<Rightarrow> (Inl e, s2\<lparr>u_lastNode := Some l\<rparr>)
                            | Inr s3 \<Rightarrow> (Inr (), s3)))
                 else (Inr (), s1))"

definition clearExternalNodes :: "sound_instance \<Rightarrow> (error + unit) \<times> sound_instance" where
  "clearExternalNodes s =
     (let speakers = Destination;
          r1 = (case u_firstNode s of
                  Some f \<Rightarrow>
                    (case disconnect connectorNode f s of
                       Inl e \<Rightarrow> (Inl e, s)
                     | Inr s' \<Rightarrow> (Inr (), s'\<lparr>u_firstNode := None\<rparr>))
                | None \<Rightarrow> (Inr (), s))
      in case r1 of
           (Inl e, s1) \<Rightarrow> (Inl e, s1)
         | (Inr _, s1) \<Rightarrow>
             (case (case u_lastNode s1 of
                      Some l \<Rightarrow>
                        (case disconnect l speakers s1 of
                           Inl e \<Rightarrow> (Inl e, s1)
                         | Inr s' \<Rightarrow> (Inr (), s'\<lparr>u_lastNode := None\<rparr>))
                    | None \<Rightarrow> (Inr (), s1)) of
                (Inl e, s2) \<Rightarrow> (Inl e, s2)
              | (Inr _, s2) \<Rightarrow>
                  (case connect connectorNode speakers s2 of
                     Inl e \<Rightarrow> (Inl e, s2)
                   | Inr s3 \<Rightarrow> (Inr (), s3))))"

definition getExternalNodes :: "sound_instance \<Rightarrow> node option \<times> node option" where
  "getExternalNodes s = (u_firstNode s, u_lastNode s)"

text \<open>\<open>_onEnded\<close>, the handler of the source's \<open>onended\<close>.\<close>

definition onEnded :: "sound_instance \<Rightarrow> sound_instance" where
  "onEnded s =
     (if u_suspendEndEvent s then s\<lparr>u_suspendEndEvent := False\<rparr>
      else snd (stop (fire EvEnd s)))"

text \<open>The handlers of the manager's events.\<close>

definition onManagerDestroy :: "sound_instance \<Rightarrow> sound_instance" where
  "onManagerDestroy s =
     (if source s \<noteq> None \<and> isPlaying s then (source_stop s)\<lparr>source := None\<rparr> else s)"

definition onManagerVolumeChange :: "manager \<Rightarrow> sound_instance \<Rightarrow> sound_instance" where
  "onManagerVolumeChange m s = volume_set m (u_volume s) s"

definition onManagerResume :: "manager \<Rightarrow> sound_instance \<Rightarrow> (error + unit) \<times> sound_instance" where
  "onManagerResume m s =
     (if u_suspended s
      then (case resume m (s\<lparr>u_suspended := False\<rparr>) of
              (Inl e, s1) \<Rightarrow> (Inl e, s1)
            | (Inr _, s1) \<Rightarrow> (Inr (), s1))
      else (Inr (), s))"

text \<open>The setter of \<open>sound\<close>.\<close>

definition sound_set :: "sound option \<Rightarrow> sound_instance \<Rightarrow> sound_instance" where
  "sound_set v s =
     (let s1 = s\<lparr>u_sound := v\<rparr>
      in if \<not> isStopped s1 then snd (stop s1) else createSource s1)"

text \<open>
  The getter of \<open>currentTime\<close>: the value read and the instance afterwards (while
  playing the getter writes \<open>_currentTime\<close> and \<open>_calculatedCurrentTimeAt\<close>).
\<close>

definition currentTime_get :: "manager \<Rightarrow> sound_instance \<Rightarrow> jsnum \<times> sound_instance" where
  "currentTime_get m s =
     (case u_startOffset s of
        Some so \<Rightarrow> (so, s)
      | None \<Rightarrow>
          if isStopped s \<or> source s = None then (Fin 0, s)
          else if isPaused s then (u_currentTime s, s)
          else
            let s1 = s\<lparr>u_currentTime :=
                         capTime (js_add (u_currentTime s)
                                    (js_mul (js_sub (ctx_currentTime m) (u_calculatedCurrentTimeAt s))
                                            (u_pitch s)))
                                 (duration_get s),
                       u_calculatedCurrentTimeAt := ctx_currentTime m\<rparr>
            in (u_currentTime s1, s1))"

text \<open>
  The setter of \<open>currentTime\<close>, for a value that is a number. When the inner \<open>play\<close>
  raises, \<open>_suspendInstanceEvents\<close> is not restored.
\<close>

definition currentTime_set ::
  "manager \<Rightarrow> jsnum \<Rightarrow> sound_instance \<Rightarrow> (error + unit) \<times> sound_instance" where
  "currentTime_set m v s =
     (if js_lt v (Fin 0) then (Inr (), s)
      else if isPlaying s then
        let s1 = snd (stop s);
            suspend = u_suspendInstanceEvents s1;
            s2 = s1\<lparr>u_suspendInstanceEvents := True, u_startOffset := Some v\<rparr>
        in case play m s2 of
             (Inl e, s3) \<Rightarrow> (Inl e, s3)
           | (Inr _, s3) \<Rightarrow> (Inr (), s3\<lparr>u_suspendInstanceEvents := suspend\<rparr>)
      else (Inr (), s\<lparr>u_startOffset := Some v, u_currentTime := v,
                       u_calculatedCurrentTimeAt := ctx_currentTime m\<rparr>))"

text \<open>The setters of \<open>startTime\<close> and \<open>duration\<close>, for a value that is a number.\<close>

definition startTime_set ::
  "manager \<Rightarrow> jsnum \<Rightarrow> sound_instance \<Rightarrow> (error + unit) \<times> sound_instance" where
  "startTime_set m v s =
     (let s1 = s\<lparr>u_startTime := js_max (Fin 0) (js_or0 v)\<rparr>;
          playing = isPlaying s1;
          s2 = snd (stop s1)
      in if playing
         then (case play m s2 of
                 (Inl e, s3) \<Rightarrow> (Inl e, s3)
               | (Inr _, s3) \<Rightarrow> (Inr (), s3))
         else (Inr (), s2))"

definition duration_set ::
  "manager \<Rightarrow> jsnum \<Rightarrow> sound_instance \<Rightarrow> (error + unit) \<times> sound_instance" where
  "duration_set m v s =
     (let s1 = s\<lparr>u_duration := js_max (Fin 0) (js_or0 v)\<rparr>;
          playing = isPlaying s1;
          s2 = snd (stop s1)
      in if playing
         then (case play m s2 of
                 (Inl e, s3) \<Rightarrow> (Inl e, s3)
               | (Inr _, s3) \<Rightarrow> (Inr (), s3))
         else (Inr (), s2))"

text \<open>
  The constructor. \<open>Number(undefined)\<close> is NaN, so an option left out of \<open>startTime\<close>
  or \<open>duration\<close> gives \<open>0\<close>. The manager is only stored; the audio context makes the
  gain node and is the owner of the destination.
\<close>

definition SoundInstance :: "manager \<Rightarrow> sound option \<Rightarrow> options \<Rightarrow> sound_instance" where
  "SoundInstance manager sd opts =
     createSource (initializeNodes
       \<lparr>u_volume = (case o_volume opts of
                     None \<Rightarrow> Fin 1
                   | Some v \<Rightarrow> clamp (js_or0 v) (Fin 0) (Fin 1)),
        u_pitch = (case o_pitch opts of
                    None \<Rightarrow> Fin 1
                  | Some p \<Rightarrow> js_max (Fin 0.01) (js_or0 p)),
        u_loop = (case o_loop opts of None \<Rightarrow> False | Some b \<Rightarrow> b),
        u_sound = sd,
        u_state = Stopped,
        u_suspended = False,
        u_suspendEndEvent = False,
        u_suspendInstanceEvents = False,
        u_startTime = js_max (Fin 0) (js_or0 (num_of_undefined (o_startTime opts))),
        u_duration = js_max (Fin 0) (js_or0 (num_of_undefined (o_duration opts))),
        u_startedAt = Fin 0,
        u_startOffset = None,
        u_currentTime = Fin 0,
        u_calculatedCurrentTimeAt = Fin 0,
        u_playWhenLoaded = True,
        u_firstNode = None,
        u_lastNode = None,
        source = None,
        gain_value = Fin 1,
        edges = {},
        subscribed = False,
        fired = [],
        calls = [],
        next_source = 0\<rparr>)"

section \<open>Sequences of operations\<close>

text \<open>
  What can happen to an instance: a call of a public method, a read or a write of a
  property, the \<open>onended\<close> notification of a source, or an event of the manager. An
  event of the manager reaches the instance only while its handlers are registered.
\<close>

datatype op =
    Play | Pause | Resume | Stop
  | SetExternalNodes "node option" "node option" | ClearExternalNodes
  | GetCurrentTime | SetCurrentTime jsnum
  | SetVolume jsnum | SetPitch jsnum | SetLoop bool
  | SetSound "sound option" | SetStartTime jsnum | SetDuration jsnum
  | Ended
  | ManagerVolumeChange | ManagerSuspend | ManagerResume | ManagerDestroy

text \<open>One operation: the error it raised, if any, and the instance afterwards.\<close>

fun step :: "manager \<Rightarrow> op \<Rightarrow> sound_instance \<Rightarrow> error option \<times> sound_instance" where
  "step m Play s = (case play m s of (Inl e, s') \<Rightarrow> (Some e, s') | (Inr _, s') \<Rightarrow> (None, s'))"
| "step m Pause s = (None, snd (pause m s))"
| "step m Resume s = (case resume m s of (Inl e, s') \<Rightarrow> (Some e, s') | (Inr _, s') \<Rightarrow> (None, s'))"
| "step m Stop s = (None, snd (stop s))"
| "step m (SetExternalNodes f l) s =
     (case setExternalNodes f l s of (Inl e, s') \<Rightarrow> (Some e, s') | (Inr _, s') \<Rightarrow> (None, s'))"
| "step m ClearExternalNodes s =
     (case clearExternalNodes s of (Inl e, s') \<Rightarrow> (Some e, s') | (Inr _, s') \<Rightarrow> (None, s'))"
| "step m GetCurrentTime s = (None, snd (currentTime_get m s))"
| "step m (SetCurrentTime v) s =
     (case currentTime_set m v s of (Inl e, s') \<Rightarrow> (Some e, s') | (Inr _, s') \<Rightarrow> (None, s'))"
| "step m (SetVolume v) s = (None, volume_set m v s)"
| "step m (SetPitch v) s = (None, pitch_set m v s)"
| "step m (SetLoop b) s = (None, loop_set b s)"
| "step m (SetSound v) s = (None, sound_set v s)"
| "step m (SetStartTime v) s =
     (case startTime_set m v s of (Inl e, s') \<Rightarrow> (Some e, s') | (Inr _, s') \<Rightarrow> (None, s'))"
| "step m (SetDuration v) s =
     (case duration_set m v s of (Inl e, s') \<Rightarrow> (Some e, s') | (Inr _, s') \<Rightarrow> (None, s'))"
| "step m Ended s = (None, onEnded s)"
| "step m ManagerVolumeChange s =
     (if subscribed s then (None, onManagerVolumeChange m s) else (None, s))"
| "step m ManagerSuspend s =
     (if subscribed s then (None, onManagerSuspend m s) else (None, s))"
| "step m ManagerResume s =
     (if subscribed s
      then (case onManagerResume m s of (Inl e, s') \<Rightarrow> (Some e, s') | (Inr _, s') \<Rightarrow> (None, s'))
      else (None, s))"
| "step m ManagerDestroy s =
     (if subscribed s then (None, onManagerDestroy s) else (None, s))"

text \<open>
  A sequence of operations, each with the manager as it is at that time: the instance
  at the end, and the errors raised on the way. An error ends the call that raised it,
  not the life of the instance.
\<close>

fun run :: "(manager \<times> op) list \<Rightarrow> sound_instance \<Rightarrow> sound_instance" where
  "run [] s = s"
| "run ((m, x) # xs) s = run xs (snd (step m x s))"

fun raised :: "(manager \<times> op) list \<Rightarrow> sound_instance \<Rightarrow> error list" where
  "raised [] s = []"
| "raised ((m, x) # xs) s =
     (case fst (step m x s) of None \<Rightarrow> [] | Some e \<Rightarrow> [e]) @ raised xs (snd (step m x s))"

section \<open>The spec's derived duration\<close>

text \<open>\<open>min(a, b)\<close> on numbers, as \<open>Math.min\<close> computes it.\<close>

definition js_min :: "jsnum \<Rightarrow> jsnum \<Rightarrow> jsnum" where
  "js_min a b = (if a = NaN \<or> b = NaN then NaN else if js_lt b a then b else a)"

text \<open>
  The derived duration in the spec's words, to be compared with \<open>duration_get\<close>:
  \<open>effectiveDuration = windowDuration>0 ? min(windowDuration, resourceDuration-startTime)
  : resourceDuration\<close>.
\<close>

definition effectiveDuration_spec :: "jsnum \<Rightarrow> jsnum \<Rightarrow> jsnum \<Rightarrow> jsnum" where
  "effectiveDuration_spec windowDuration resourceDuration startTime =
     (if js_lt (Fin 0) windowDuration
      then js_min windowDuration (js_sub resourceDuration startTime)
      else resourceDuration)"

text \<open>
  The start offset of \<open>play\<close> after a seek to \<open>x\<close> in the spec's words, to be compared
  with the offset \<open>play\<close> hands to \<open>start\<close>: \<open>x\<close> wrapped into
  \<open>[0, effectiveDuration)\<close>, then \<open>startTime + offset\<close> wrapped into
  \<open>[0, resourceDuration)\<close>, where \<open>x % d\<close> yields \<open>0\<close> instead of NaN.
\<close>

definition seekOffset_spec :: "jsnum \<Rightarrow> jsnum \<Rightarrow> jsnum \<Rightarrow> jsnum \<Rightarrow> jsnum" where
  "seekOffset_spec x windowDuration resourceDuration startTime =
     capTime (js_add startTime
                (capTime x (effectiveDuration_spec windowDuration resourceDuration startTime)))
             resourceDuration"

section \<open>Concrete instances\<close>

text \<open>A manager whose clock reads \<open>t\<close>, at full volume and not suspended.\<close>

definition manager_at :: "real \<Rightarrow> manager" where
  "manager_at t = \<lparr>ctx_currentTime = Fin t, m_volume = Fin 1, m_suspended = False\<rparr>"

text \<open>A decoded sound of ten seconds.\<close>

definition sound10 :: sound where
  "sound10 = \<lparr>s_duration = Fin 10, s_buffer = Some (Fin 10)\<rparr>"

definition no_options :: options where
  "no_options =
     \<lparr>o_volume = None, o_pitch = None, o_loop = None, o_startTime = None, o_duration = None\<rparr>"

text \<open>\<open>new pc.SoundInstance(manager, sound10)\<close>.\<close>

definition fresh10 :: sound_instance where
  "fresh10 = SoundInstance (manager_at 0) (Some sound10) no_options"

text \<open>\<open>new pc.SoundInstance(manager, sound10, {startTime: 8, duration: 3})\<close>.\<close>

definition windowed10 :: sound_instance where
  "windowed10 = SoundInstance (manager_at 0) (Some sound10)
     (no_options\<lparr>o_startTime := Some (Fin 8), o_duration := Some (Fin 3)\<rparr>)"

text \<open>
  \<open>fresh10\<close> after \<open>play()\<close> with the clock at 1, then \<open>pause()\<close> with the clock at 2,
  then \<open>resume()\<close> with the clock at 5.
\<close>

definition played10 :: sound_instance where
  "played10 = snd (play (manager_at 1) fresh10)"

definition paused10 :: sound_instance where
  "paused10 = snd (pause (manager_at 2) played10)"

definition resumed10 :: sound_instance where
  "resumed10 = snd (resume (manager_at 5) paused10)"

text \<open>\<open>played10\<close> reached as a sequence, and then hit by the manager's \<open>destroy\<close> event.\<close>

definition destroyed10 :: sound_instance where
  "destroyed10 = run [(manager_at 1, Play), (manager_at 2, ManagerDestroy)] fresh10"

text \<open>\<open>new pc.SoundInstance(manager, null)\<close>: an instance without a sound.\<close>

definition silent :: sound_instance where
  "silent = SoundInstance (manager_at 0) None no_options"

text \<open>
  \<open>played10\<close> after the end notification of its source (the sound has played to its
  end), and then \<open>play()\<close> again with the clock at 12.
\<close>

definition ended10 :: sound_instance where
  "ended10 = onEnded played10"

definition replayed10 :: sound_instance where
  "replayed10 = snd (play (manager_at 12) ended10)"

text \<open>\<open>windowed10\<close> after \<open>currentTime = 5\<close>, and then \<open>play()\<close> with the clock at 1.\<close>

definition seeked10 :: sound_instance where
  "seeked10 = snd (currentTime_set (manager_at 0) (Fin 5) windowed10)"

section \<open>Predicates of the proofs\<close>

text \<open>The source, if there is one, has been started.\<close>

definition source_started :: "sound_instance \<Rightarrow> bool" where
  "source_started s = (case source s of None \<Rightarrow> True | Some src \<Rightarrow> started src)"

text \<open>The source of a playing instance, if it has one, has been started.\<close>

definition playing_started :: "sound_instance \<Rightarrow> bool" where
  "playing_started s = (if u_state s = Playing then source_started s else True)"

text \<open>
  The wiring the instance keeps between its connector and the destination: without a
  chain the connector's only edge goes to the destination, and the only edge into the
  destination comes from the connector; with a chain the connector's only edge goes to
  the first node, and the only edge into the destination comes from the last node.
  The stored nodes are nodes of the caller.
\<close>

definition chain_ok :: "sound_instance \<Rightarrow> bool" where
  "chain_ok s =
     ((u_firstNode s = None) = (u_lastNode s = None)
      \<and> (\<forall>b. ((connectorNode, b) \<in> edges s)
              = (b = (case u_firstNode s of None \<Rightarrow> Destination | Some f \<Rightarrow> f)))
      \<and> (\<forall>a. ((a, Destination) \<in> edges s)
              = (a = (case u_lastNode s of None \<Rightarrow> connectorNode | Some l \<Rightarrow> l)))
      \<and> (case u_firstNode s of None \<Rightarrow> True | Some f \<Rightarrow> is_external f)
      \<and> (case u_lastNode s of None \<Rightarrow> True | Some l \<Rightarrow> is_external l))"

text \<open>
  The \<open>setExternalNodes\<close> calls of the JSDoc: the first node of a chain that the caller
  created, and the last node of that chain or none. Every other operation qualifies.
\<close>

fun ext_args_ok :: "op \<Rightarrow> bool" where
  "ext_args_ok (SetExternalNodes firstNode lastNode) =
     (case firstNode of
        None \<Rightarrow> False
      | Some f \<Rightarrow> is_external f \<and> (case lastNode of None \<Rightarrow> True | Some l \<Rightarrow> is_external l))"
| "ext_args_ok _ = True"

section \<open>Properties of capTime\<close>

lemma fmod_nonneg: "0 \<le> x \<Longrightarrow> 0 < d \<Longrightarrow> fmod x d = x - d * of_int \<lfloor>x / d\<rfloor>"
  by (cases "x = 0") (simp_all add: fmod_def)

lemma fmod_zero [simp]: "fmod 0 d = 0"
  by (simp add: fmod_def)

lemma fmod_abs_less:
  assumes "d \<noteq> 0"
  shows "\<bar>fmod x d\<bar> < \<bar>d\<bar>"
proof -
  let ?a = "\<bar>x\<bar>" and ?b = "\<bar>d\<bar>"
  have b: "0 < ?b" using assms by simp
  have lo: "of_int \<lfloor>?a / ?b\<rfloor> * ?b \<le> ?a"
    using b by (metis floor_divide_lower)
  have hi: "?a < (of_int \<lfloor>?a / ?b\<rfloor> + 1) * ?b"
    using b by (metis floor_divide_upper)
  have r: "0 \<le> ?a - ?b * of_int \<lfloor>?a / ?b\<rfloor>" "?a - ?b * of_int \<lfloor>?a / ?b\<rfloor> < ?b"
    using lo hi by (simp_all add: algebra_simps)
  have "\<bar>fmod x d\<bar> = \<bar>sgn x\<bar> * \<bar>?a - ?b * of_int \<lfloor>?a / ?b\<rfloor>\<bar>"
    by (simp add: fmod_def abs_mult)
  also have "\<dots> \<le> \<bar>?a - ?b * of_int \<lfloor>?a / ?b\<rfloor>\<bar>"
    by (cases "x = 0") (simp_all add: abs_sgn_eq)
  also have "\<dots> < ?b" using r by simp
  finally show ?thesis .
qed

lemma fmod_small: "\<bar>x\<bar> < \<bar>d\<bar> \<Longrightarrow> fmod x d = x"
proof -
  assume a: "\<bar>x\<bar> < \<bar>d\<bar>"
  then have "0 \<le> \<bar>x\<bar> / \<bar>d\<bar>" "\<bar>x\<bar> / \<bar>d\<bar> < 1" by simp_all
  then have "\<lfloor>\<bar>x\<bar> / \<bar>d\<bar>\<rfloor> = 0" by (simp add: floor_eq_iff)
  then show ?thesis by (simp add: fmod_def sgn_mult_abs)
qed

lemma fmod_idem: "d \<noteq> 0 \<Longrightarrow> fmod (fmod x d) d = fmod x d"
  by (rule fmod_small) (rule fmod_abs_less)

lemma capTime_idem: "capTime (capTime t d) d = capTime t d"
  by (cases t; cases d) (simp_all add: capTime_def js_or0_def fmod_idem)

text \<open>
  C9. \<open>capTime(t, d)\<close> returns \<open>0\<close> whenever \<open>d = 0\<close>, for every \<open>t\<close>, finite or not:
  the remainder by zero is NaN, which is falsy, so \<open>|| 0\<close> yields \<open>0\<close>.
\<close>

theorem capTime_zero_duration: "capTime t (Fin 0) = Fin 0"
  by (cases t) (simp_all add: capTime_def js_or0_def)

lemma capTime_nonfinite [simp]:
  "capTime NaN d = Fin 0" "capTime PInf d = Fin 0" "capTime NInf d = Fin 0"
  by (simp_all add: capTime_def js_or0_def)

lemma js_add_NaN_right [simp]: "js_add a NaN = NaN"
  by (cases a) simp_all

lemma js_add_zero_right [simp]: "js_add a (Fin 0) = a"
  by (cases a) simp_all

lemma capTime_not_NaN [simp]: "capTime t d \<noteq> NaN"
  by (cases "js_mod t d") (simp_all add: capTime_def js_or0_def)

lemma capTime_finite [simp]: "js_finite (capTime t d)"
  by (cases t; cases d) (simp_all add: capTime_def js_or0_def)

lemma fmod_nonneg_sign: "0 \<le> x \<Longrightarrow> d \<noteq> 0 \<Longrightarrow> 0 \<le> fmod x d"
proof -
  assume x: "0 \<le> x" and d: "d \<noteq> 0"
  have "of_int \<lfloor>\<bar>x\<bar> / \<bar>d\<bar>\<rfloor> * \<bar>d\<bar> \<le> \<bar>x\<bar>"
    using d by (metis floor_divide_lower zero_less_abs_iff)
  then have "0 \<le> \<bar>x\<bar> - \<bar>d\<bar> * of_int \<lfloor>\<bar>x\<bar> / \<bar>d\<bar>\<rfloor>"
    by (simp add: algebra_simps)
  moreover have "0 \<le> sgn x" using x by (simp add: sgn_if)
  ultimately show ?thesis by (simp add: fmod_def)
qed

lemma capTime_nonneg: "js_le (Fin 0) t \<Longrightarrow> js_le (Fin 0) (capTime t d)"
  by (cases t; cases d)
     (simp_all add: capTime_def js_or0_def js_le_def not_less fmod_nonneg_sign)

lemma js_add_nonneg: "js_le (Fin 0) a \<Longrightarrow> js_le (Fin 0) b \<Longrightarrow> js_le (Fin 0) (js_add a b)"
  by (cases a; cases b) (simp_all add: js_le_def)

section \<open>What each member leaves alone\<close>

text \<open>
  For every member, the fields of the instance it never writes, and the value of
  \<open>duration\<close>, which depends on \<open>_sound\<close> and \<open>_duration\<close> only.
\<close>

lemma duration_get_update [simp]:
  "duration_get (s\<lparr>u_volume := x0\<rparr>) = duration_get s"
  "duration_get (s\<lparr>u_pitch := x1\<rparr>) = duration_get s"
  "duration_get (s\<lparr>u_loop := x2\<rparr>) = duration_get s"
  "duration_get (s\<lparr>u_state := x4\<rparr>) = duration_get s"
  "duration_get (s\<lparr>u_suspended := x5\<rparr>) = duration_get s"
  "duration_get (s\<lparr>u_suspendEndEvent := x6\<rparr>) = duration_get s"
  "duration_get (s\<lparr>u_suspendInstanceEvents := x7\<rparr>) = duration_get s"
  "duration_get (s\<lparr>u_startTime := x8\<rparr>) = duration_get s"
  "duration_get (s\<lparr>u_startedAt := x10\<rparr>) = duration_get s"
  "duration_get (s\<lparr>u_startOffset := x11\<rparr>) = duration_get s"
  "duration_get (s\<lparr>u_currentTime := x12\<rparr>) = duration_get s"
  "duration_get (s\<lparr>u_calculatedCurrentTimeAt := x13\<rparr>) = duration_get s"
  "duration_get (s\<lparr>u_playWhenLoaded := x14\<rparr>) = duration_get s"
  "duration_get (s\<lparr>u_firstNode := x15\<rparr>) = duration_get s"
  "duration_get (s\<lparr>u_lastNode := x16\<rparr>) = duration_get s"
  "duration_get (s\<lparr>source := x17\<rparr>) = duration_get s"
  "duration_get (s\<lparr>gain_value := x18\<rparr>) = duration_get s"
  "duration_get (s\<lparr>edges := x19\<rparr>) = duration_get s"
  "duration_get (s\<lparr>subscribed := x20\<rparr>) = duration_get s"
  "duration_get (s\<lparr>fired := x21\<rparr>) = duration_get s"
  "duration_get (s\<lparr>calls := x22\<rparr>) = duration_get s"
  "duration_get (s\<lparr>next_source := x23\<rparr>) = duration_get s"
  by (simp_all add: duration_get_def split: option.splits)

lemma fire_frame [simp]:
  "u_volume (fire e s) = u_volume s"
  "u_pitch (fire e s) = u_pitch s"
  "u_loop (fire e s) = u_loop s"
  "u_sound (fire e s) = u_sound s"
  "u_state (fire e s) = u_state s"
  "u_suspended (fire e s) = u_suspended s"
  "u_suspendEndEvent (fire e s) = u_suspendEndEvent s"
  "u_suspendInstanceEvents (fire e s) = u_suspendInstanceEvents s"
  "u_startTime (fire e s) = u_startTime s"
  "u_duration (fire e s) = u_duration s"
  "u_startedAt (fire e s) = u_startedAt s"
  "u_startOffset (fire e s) = u_startOffset s"
  "u_currentTime (fire e s) = u_currentTime s"
  "u_calculatedCurrentTimeAt (fire e s) = u_calculatedCurrentTimeAt s"
  "u_playWhenLoaded (fire e s) = u_playWhenLoaded s"
  "u_firstNode (fire e s) = u_firstNode s"
  "u_lastNode (fire e s) = u_lastNode s"
  "source (fire e s) = source s"
  "gain_value (fire e s) = gain_value s"
  "edges (fire e s) = edges s"
  "subscribed (fire e s) = subscribed s"
  "calls (fire e s) = calls s"
  "next_source (fire e s) = next_source s"
  by (simp_all add: fire_def)

lemma duration_get_fire [simp]: "duration_get (fire e s) = duration_get s"
  by (simp add: duration_get_def split: option.splits)

lemma connect_edge_frame [simp]:
  "u_volume (connect_edge a b s) = u_volume s"
  "u_pitch (connect_edge a b s) = u_pitch s"
  "u_loop (connect_edge a b s) = u_loop s"
  "u_sound (connect_edge a b s) = u_sound s"
  "u_state (connect_edge a b s) = u_state s"
  "u_suspended (connect_edge a b s) = u_suspended s"
  "u_suspendEndEvent (connect_edge a b s) = u_suspendEndEvent s"
  "u_suspendInstanceEvents (connect_edge a b s) = u_suspendInstanceEvents s"
  "u_startTime (connect_edge a b s) = u_startTime s"
  "u_duration (connect_edge a b s) = u_duration s"
  "u_startedAt (connect_edge a b s) = u_startedAt s"
  "u_startOffset (connect_edge a b s) = u_startOffset s"
  "u_currentTime (connect_edge a b s) = u_currentTime s"
  "u_calculatedCurrentTimeAt (connect_edge a b s) = u_calculatedCurrentTimeAt s"
  "u_playWhenLoaded (connect_edge a b s) = u_playWhenLoaded s"
  "u_firstNode (connect_edge a b s) = u_firstNode s"
  "u_lastNode (connect_edge a b s) = u_lastNode s"
  "source (connect_edge a b s) = source s"
  "gain_value (connect_edge a b s) = gain_value s"
  "subscribed (connect_edge a b s) = subscribed s"
  "fired (connect_edge a b s) = fired s"
  "next_source (connect_edge a b s) = next_source s"
  by (simp_all add: connect_edge_def)

lemma duration_get_connect_edge [simp]: "duration_get (connect_edge a b s) = duration_get s"
  by (simp add: duration_get_def split: option.splits)

lemma source_stop_frame [simp]:
  "u_volume (source_stop s) = u_volume s"
  "u_pitch (source_stop s) = u_pitch s"
  "u_loop (source_stop s) = u_loop s"
  "u_sound (source_stop s) = u_sound s"
  "u_state (source_stop s) = u_state s"
  "u_suspended (source_stop s) = u_suspended s"
  "u_suspendEndEvent (source_stop s) = u_suspendEndEvent s"
  "u_suspendInstanceEvents (source_stop s) = u_suspendInstanceEvents s"
  "u_startTime (source_stop s) = u_startTime s"
  "u_duration (source_stop s) = u_duration s"
  "u_startedAt (source_stop s) = u_startedAt s"
  "u_startOffset (source_stop s) = u_startOffset s"
  "u_currentTime (source_stop s) = u_currentTime s"
  "u_calculatedCurrentTimeAt (source_stop s) = u_calculatedCurrentTimeAt s"
  "u_playWhenLoaded (source_stop s) = u_playWhenLoaded s"
  "u_firstNode (source_stop s) = u_firstNode s"
  "u_lastNode (source_stop s) = u_lastNode s"
  "source (source_stop s) = source s"
  "gain_value (source_stop s) = gain_value s"
  "edges (source_stop s) = edges s"
  "subscribed (source_stop s) = subscribed s"
  "fired (source_stop s) = fired s"
  "next_source (source_stop s) = next_source s"
  by (simp_all add: source_stop_def split: option.splits)

lemma duration_get_source_stop [simp]: "duration_get (source_stop s) = duration_get s"
  by (simp add: duration_get_def split: option.splits)

lemma createSource_frame [simp]:
  "u_volume (createSource s) = u_volume s"
  "u_pitch (createSource s) = u_pitch s"
  "u_loop (createSource s) = u_loop s"
  "u_sound (createSource s) = u_sound s"
  "u_state (createSource s) = u_state s"
  "u_suspended (createSource s) = u_suspended s"
  "u_suspendEndEvent (createSource s) = u_suspendEndEvent s"
  "u_suspendInstanceEvents (createSource s) = u_suspendInstanceEvents s"
  "u_startTime (createSource s) = u_startTime s"
  "u_duration (createSource s) = u_duration s"
  "u_startedAt (createSource s) = u_startedAt s"
  "u_startOffset (createSource s) = u_startOffset s"
  "u_currentTime (createSource s) = u_currentTime s"
  "u_calculatedCurrentTimeAt (createSource s) = u_calculatedCurrentTimeAt s"
  "u_playWhenLoaded (createSource s) = u_playWhenLoaded s"
  "u_firstNode (createSource s) = u_firstNode s"
  "u_lastNode (createSource s) = u_lastNode s"
  "gain_value (createSource s) = gain_value s"
  "subscribed (createSource s) = subscribed s"
  by (simp_all add: createSource_def Let_def split: option.splits)

lemma duration_get_createSource [simp]: "duration_get (createSource s) = duration_get s"
  by (simp add: duration_get_def split: option.splits)

lemma volume_set_frame [simp]:
  "u_pitch (volume_set m v s) = u_pitch s"
  "u_loop (volume_set m v s) = u_loop s"
  "u_sound (volume_set m v s) = u_sound s"
  "u_state (volume_set m v s) = u_state s"
  "u_suspended (volume_set m v s) = u_suspended s"
  "u_suspendEndEvent (volume_set m v s) = u_suspendEndEvent s"
  "u_suspendInstanceEvents (volume_set m v s) = u_suspendInstanceEvents s"
  "u_startTime (volume_set m v s) = u_startTime s"
  "u_duration (volume_set m v s) = u_duration s"
  "u_startedAt (volume_set m v s) = u_startedAt s"
  "u_startOffset (volume_set m v s) = u_startOffset s"
  "u_currentTime (volume_set m v s) = u_currentTime s"
  "u_calculatedCurrentTimeAt (volume_set m v s) = u_calculatedCurrentTimeAt s"
  "u_playWhenLoaded (volume_set m v s) = u_playWhenLoaded s"
  "u_firstNode (volume_set m v s) = u_firstNode s"
  "u_lastNode (volume_set m v s) = u_lastNode s"
  "source (volume_set m v s) = source s"
  "edges (volume_set m v s) = edges s"
  "subscribed (volume_set m v s) = subscribed s"
  "fired (volume_set m v s) = fired s"
  "calls (volume_set m v s) = calls s"
  "next_source (volume_set m v s) = next_source s"
  by (simp_all add: volume_set_def Let_def)

lemma duration_get_volume_set [simp]: "duration_get (volume_set m v s) = duration_get s"
  by (simp add: duration_get_def split: option.splits)

lemma loop_set_frame [simp]:
  "u_volume (loop_set b s) = u_volume s"
  "u_pitch (loop_set b s) = u_pitch s"
  "u_sound (loop_set b s) = u_sound s"
  "u_state (loop_set b s) = u_state s"
  "u_suspended (loop_set b s) = u_suspended s"
  "u_suspendEndEvent (loop_set b s) = u_suspendEndEvent s"
  "u_suspendInstanceEvents (loop_set b s) = u_suspendInstanceEvents s"
  "u_startTime (loop_set b s) = u_startTime s"
  "u_duration (loop_set b s) = u_duration s"
  "u_startedAt (loop_set b s) = u_startedAt s"
  "u_startOffset (loop_set b s) = u_startOffset s"
  "u_currentTime (loop_set b s) = u_currentTime s"
  "u_calculatedCurrentTimeAt (loop_set b s) = u_calculatedCurrentTimeAt s"
  "u_playWhenLoaded (loop_set b s) = u_playWhenLoaded s"
  "u_firstNode (loop_set b s) = u_firstNode s"
  "u_lastNode (loop_set b s) = u_lastNode s"
  "gain_value (loop_set b s) = gain_value s"
  "edges (loop_set b s) = edges s"
  "subscribed (loop_set b s) = subscribed s"
  "fired (loop_set b s) = fired s"
  "calls (loop_set b s) = calls s"
  "next_source (loop_set b s) = next_source s"
  by (simp_all add: loop_set_def Let_def split: option.splits)

lemma duration_get_loop_set [simp]: "duration_get (loop_set b s) = duration_get s"
  by (simp add: duration_get_def split: option.splits)

lemma pitch_set_frame [simp]:
  "u_volume (pitch_set m p s) = u_volume s"
  "u_loop (pitch_set m p s) = u_loop s"
  "u_sound (pitch_set m p s) = u_sound s"
  "u_state (pitch_set m p s) = u_state s"
  "u_suspended (pitch_set m p s) = u_suspended s"
  "u_suspendEndEvent (pitch_set m p s) = u_suspendEndEvent s"
  "u_suspendInstanceEvents (pitch_set m p s) = u_suspendInstanceEvents s"
  "u_startTime (pitch_set m p s) = u_startTime s"
  "u_duration (pitch_set m p s) = u_duration s"
  "u_startedAt (pitch_set m p s) = u_startedAt s"
  "u_startOffset (pitch_set m p s) = u_startOffset s"
  "u_playWhenLoaded (pitch_set m p s) = u_playWhenLoaded s"
  "u_firstNode (pitch_set m p s) = u_firstNode s"
  "u_lastNode (pitch_set m p s) = u_lastNode s"
  "gain_value (pitch_set m p s) = gain_value s"
  "edges (pitch_set m p s) = edges s"
  "subscribed (pitch_set m p s) = subscribed s"
  "fired (pitch_set m p s) = fired s"
  "calls (pitch_set m p s) = calls s"
  "next_source (pitch_set m p s) = next_source s"
  by (simp_all add: pitch_set_def Let_def split: option.splits)

lemma duration_get_pitch_set [simp]: "duration_get (pitch_set m p s) = duration_get s"
  by (simp add: duration_get_def split: option.splits)

lemma stop_frame [simp]:
  "u_volume (snd (stop s)) = u_volume s"
  "u_pitch (snd (stop s)) = u_pitch s"
  "u_loop (snd (stop s)) = u_loop s"
  "u_sound (snd (stop s)) = u_sound s"
  "u_suspended (snd (stop s)) = u_suspended s"
  "u_suspendInstanceEvents (snd (stop s)) = u_suspendInstanceEvents s"
  "u_startTime (snd (stop s)) = u_startTime s"
  "u_duration (snd (stop s)) = u_duration s"
  "u_currentTime (snd (stop s)) = u_currentTime s"
  "u_calculatedCurrentTimeAt (snd (stop s)) = u_calculatedCurrentTimeAt s"
  "u_firstNode (snd (stop s)) = u_firstNode s"
  "u_lastNode (snd (stop s)) = u_lastNode s"
  "gain_value (snd (stop s)) = gain_value s"
  by (simp_all add: stop_def Let_def)

lemma duration_get_stop [simp]: "duration_get (snd (stop s)) = duration_get s"
  by (simp add: duration_get_def split: option.splits)

lemma pause_frame [simp]:
  "u_volume (snd (pause m s)) = u_volume s"
  "u_pitch (snd (pause m s)) = u_pitch s"
  "u_loop (snd (pause m s)) = u_loop s"
  "u_sound (snd (pause m s)) = u_sound s"
  "u_suspended (snd (pause m s)) = u_suspended s"
  "u_suspendInstanceEvents (snd (pause m s)) = u_suspendInstanceEvents s"
  "u_startTime (snd (pause m s)) = u_startTime s"
  "u_duration (snd (pause m s)) = u_duration s"
  "u_startedAt (snd (pause m s)) = u_startedAt s"
  "u_firstNode (snd (pause m s)) = u_firstNode s"
  "u_lastNode (snd (pause m s)) = u_lastNode s"
  "gain_value (snd (pause m s)) = gain_value s"
  "subscribed (snd (pause m s)) = subscribed s"
  by (simp_all add: pause_def Let_def)

lemma duration_get_pause [simp]: "duration_get (snd (pause m s)) = duration_get s"
  by (simp add: duration_get_def split: option.splits)

lemma onManagerSuspend_frame [simp]:
  "u_volume (onManagerSuspend m s) = u_volume s"
  "u_pitch (onManagerSuspend m s) = u_pitch s"
  "u_loop (onManagerSuspend m s) = u_loop s"
  "u_sound (onManagerSuspend m s) = u_sound s"
  "u_suspendInstanceEvents (onManagerSuspend m s) = u_suspendInstanceEvents s"
  "u_startTime (onManagerSuspend m s) = u_startTime s"
  "u_duration (onManagerSuspend m s) = u_duration s"
  "u_startedAt (onManagerSuspend m s) = u_startedAt s"
  "u_firstNode (onManagerSuspend m s) = u_firstNode s"
  "u_lastNode (onManagerSuspend m s) = u_lastNode s"
  "gain_value (onManagerSuspend m s) = gain_value s"
  "subscribed (onManagerSuspend m s) = subscribed s"
  by (simp_all add: onManagerSuspend_def)

lemma duration_get_onManagerSuspend [simp]: "duration_get (onManagerSuspend m s) = duration_get s"
  by (simp add: duration_get_def split: option.splits)

lemma play_frame [simp]:
  "u_sound (snd (play m s)) = u_sound s"
  "u_suspendInstanceEvents (snd (play m s)) = u_suspendInstanceEvents s"
  "u_startTime (snd (play m s)) = u_startTime s"
  "u_duration (snd (play m s)) = u_duration s"
  "u_firstNode (snd (play m s)) = u_firstNode s"
  "u_lastNode (snd (play m s)) = u_lastNode s"
  by (simp_all add: play_def Let_def source_start_def split: option.splits)

lemma duration_get_play [simp]: "duration_get (snd (play m s)) = duration_get s"
  by (simp add: duration_get_def split: option.splits)

lemma resume_frame [simp]:
  "u_sound (snd (resume m s)) = u_sound s"
  "u_suspended (snd (resume m s)) = u_suspended s"
  "u_suspendEndEvent (snd (resume m s)) = u_suspendEndEvent s"
  "u_suspendInstanceEvents (snd (resume m s)) = u_suspendInstanceEvents s"
  "u_startTime (snd (resume m s)) = u_startTime s"
  "u_duration (snd (resume m s)) = u_duration s"
  "u_startedAt (snd (resume m s)) = u_startedAt s"
  "u_firstNode (snd (resume m s)) = u_firstNode s"
  "u_lastNode (snd (resume m s)) = u_lastNode s"
  "edges (snd (resume m s)) = edges s"
  "subscribed (snd (resume m s)) = subscribed s"
  "next_source (snd (resume m s)) = next_source s"
  by (simp_all add: resume_def Let_def source_start_def split: option.splits)

lemma duration_get_resume [simp]: "duration_get (snd (resume m s)) = duration_get s"
  by (simp add: duration_get_def split: option.splits)

lemma onEnded_frame [simp]:
  "u_volume (onEnded s) = u_volume s"
  "u_pitch (onEnded s) = u_pitch s"
  "u_loop (onEnded s) = u_loop s"
  "u_sound (onEnded s) = u_sound s"
  "u_suspended (onEnded s) = u_suspended s"
  "u_suspendInstanceEvents (onEnded s) = u_suspendInstanceEvents s"
  "u_startTime (onEnded s) = u_startTime s"
  "u_duration (onEnded s) = u_duration s"
  "u_currentTime (onEnded s) = u_currentTime s"
  "u_calculatedCurrentTimeAt (onEnded s) = u_calculatedCurrentTimeAt s"
  "u_firstNode (onEnded s) = u_firstNode s"
  "u_lastNode (onEnded s) = u_lastNode s"
  "gain_value (onEnded s) = gain_value s"
  by (simp_all add: onEnded_def)

lemma duration_get_onEnded [simp]: "duration_get (onEnded s) = duration_get s"
  by (simp add: duration_get_def split: option.splits)

lemma onManagerDestroy_frame [simp]:
  "u_volume (onManagerDestroy s) = u_volume s"
  "u_pitch (onManagerDestroy s) = u_pitch s"
  "u_loop (onManagerDestroy s) = u_loop s"
  "u_sound (onManagerDestroy s) = u_sound s"
  "u_state (onManagerDestroy s) = u_state s"
  "u_suspended (onManagerDestroy s) = u_suspended s"
  "u_suspendEndEvent (onManagerDestroy s) = u_suspendEndEvent s"
  "u_suspendInstanceEvents (onManagerDestroy s) = u_suspendInstanceEvents s"
  "u_startTime (onManagerDestroy s) = u_startTime s"
  "u_duration (onManagerDestroy s) = u_duration s"
  "u_startedAt (onManagerDestroy s) = u_startedAt s"
  "u_startOffset (onManagerDestroy s) = u_startOffset s"
  "u_currentTime (onManagerDestroy s) = u_currentTime s"
  "u_calculatedCurrentTimeAt (onManagerDestroy s) = u_calculatedCurrentTimeAt s"
  "u_playWhenLoaded (onManagerDestroy s) = u_playWhenLoaded s"
  "u_firstNode (onManagerDestroy s) = u_firstNode s"
  "u_lastNode (onManagerDestroy s) = u_lastNode s"
  "gain_value (onManagerDestroy s) = gain_value s"
  "edges (onManagerDestroy s) = edges s"
  "subscribed (onManagerDestroy s) = subscribed s"
  "fired (onManagerDestroy s) = fired s"
  "next_source (onManagerDestroy s) = next_source s"
  by (simp_all add: onManagerDestroy_def)

lemma duration_get_onManagerDestroy [simp]: "duration_get (onManagerDestroy s) = duration_get s"
  by (simp add: duration_get_def split: option.splits)

lemma onManagerVolumeChange_frame [simp]:
  "u_pitch (onManagerVolumeChange m s) = u_pitch s"
  "u_loop (onManagerVolumeChange m s) = u_loop s"
  "u_sound (onManagerVolumeChange m s) = u_sound s"
  "u_state (onManagerVolumeChange m s) = u_state s"
  "u_suspended (onManagerVolumeChange m s) = u_suspended s"
  "u_suspendEndEvent (onManagerVolumeChange m s) = u_suspendEndEvent s"
  "u_suspendInstanceEvents (onManagerVolumeChange m s) = u_suspendInstanceEvents s"
  "u_startTime (onManagerVolumeChange m s) = u_startTime s"
  "u_duration (onManagerVolumeChange m s) = u_duration s"
  "u_startedAt (onManagerVolumeChange m s) = u_startedAt s"
  "u_startOffset (onManagerVolumeChange m s) = u_startOffset s"
  "u_currentTime (onManagerVolumeChange m s) = u_currentTime s"
  "u_calculatedCurrentTimeAt (onManagerVolumeChange m s) = u_calculatedCurrentTimeAt s"
  "u_playWhenLoaded (onManagerVolumeChange m s) = u_playWhenLoaded s"
  "u_firstNode (onManagerVolumeChange m s) = u_firstNode s"
  "u_lastNode (onManagerVolumeChange m s) = u_lastNode s"
  "source (onManagerVolumeChange m s) = source s"
  "edges (onManagerVolumeChange m s) = edges s"
  "subscribed (onManagerVolumeChange m s) = subscribed s"
  "fired (onManagerVolumeChange m s) = fired s"
  "calls (onManagerVolumeChange m s) = calls s"
  "next_source (onManagerVolumeChange m s) = next_source s"
  by (simp_all add: onManagerVolumeChange_def)

lemma duration_get_onManagerVolumeChange [simp]: "duration_get (onManagerVolumeChange m s) = duration_get s"
  by (simp add: duration_get_def split: option.splits)

lemma snd_onManagerResume:
  "snd (onManagerResume m s) =
     (if u_suspended s then snd (resume m (s\<lparr>u_suspended := False\<rparr>)) else s)"
  by (simp add: onManagerResume_def split: prod.splits sum.splits)

lemma onManagerResume_frame [simp]:
  "u_sound (snd (onManagerResume m s)) = u_sound s"
  "u_suspendEndEvent (snd (onManagerResume m s)) = u_suspendEndEvent s"
  "u_suspendInstanceEvents (snd (onManagerResume m s)) = u_suspendInstanceEvents s"
  "u_startTime (snd (onManagerResume m s)) = u_startTime s"
  "u_duration (snd (onManagerResume m s)) = u_duration s"
  "u_startedAt (snd (onManagerResume m s)) = u_startedAt s"
  "u_firstNode (snd (onManagerResume m s)) = u_firstNode s"
  "u_lastNode (snd (onManagerResume m s)) = u_lastNode s"
  "edges (snd (onManagerResume m s)) = edges s"
  "subscribed (snd (onManagerResume m s)) = subscribed s"
  "next_source (snd (onManagerResume m s)) = next_source s"
  by (simp_all add: snd_onManagerResume)

lemma duration_get_onManagerResume [simp]: "duration_get (snd (onManagerResume m s)) = duration_get s"
  by (simp add: duration_get_def split: option.splits)

lemma sound_set_frame [simp]:
  "u_volume (sound_set v s) = u_volume s"
  "u_pitch (sound_set v s) = u_pitch s"
  "u_loop (sound_set v s) = u_loop s"
  "u_suspended (sound_set v s) = u_suspended s"
  "u_suspendInstanceEvents (sound_set v s) = u_suspendInstanceEvents s"
  "u_startTime (sound_set v s) = u_startTime s"
  "u_duration (sound_set v s) = u_duration s"
  "u_currentTime (sound_set v s) = u_currentTime s"
  "u_calculatedCurrentTimeAt (sound_set v s) = u_calculatedCurrentTimeAt s"
  "u_firstNode (sound_set v s) = u_firstNode s"
  "u_lastNode (sound_set v s) = u_lastNode s"
  "gain_value (sound_set v s) = gain_value s"
  by (simp_all add: sound_set_def Let_def)

lemma currentTime_get_frame [simp]:
  "u_volume (snd (currentTime_get m s)) = u_volume s"
  "u_pitch (snd (currentTime_get m s)) = u_pitch s"
  "u_loop (snd (currentTime_get m s)) = u_loop s"
  "u_sound (snd (currentTime_get m s)) = u_sound s"
  "u_state (snd (currentTime_get m s)) = u_state s"
  "u_suspended (snd (currentTime_get m s)) = u_suspended s"
  "u_suspendEndEvent (snd (currentTime_get m s)) = u_suspendEndEvent s"
  "u_suspendInstanceEvents (snd (currentTime_get m s)) = u_suspendInstanceEvents s"
  "u_startTime (snd (currentTime_get m s)) = u_startTime s"
  "u_duration (snd (currentTime_get m s)) = u_duration s"
  "u_startedAt (snd (currentTime_get m s)) = u_startedAt s"
  "u_startOffset (snd (currentTime_get m s)) = u_startOffset s"
  "u_playWhenLoaded (snd (currentTime_get m s)) = u_playWhenLoaded s"
  "u_firstNode (snd (currentTime_get m s)) = u_firstNode s"
  "u_lastNode (snd (currentTime_get m s)) = u_lastNode s"
  "source (snd (currentTime_get m s)) = source s"
  "gain_value (snd (currentTime_get m s)) = gain_value s"
  "edges (snd (currentTime_get m s)) = edges s"
  "subscribed (snd (currentTime_get m s)) = subscribed s"
  "fired (snd (currentTime_get m s)) = fired s"
  "calls (snd (currentTime_get m s)) = calls s"
  "next_source (snd (currentTime_get m s)) = next_source s"
  by (simp_all add: currentTime_get_def Let_def split: option.splits)

lemma duration_get_currentTime_get [simp]: "duration_get (snd (currentTime_get m s)) = duration_get s"
  by (simp add: duration_get_def split: option.splits)

lemma snd_currentTime_set:
  "snd (currentTime_set m v s) =
     (if js_lt v (Fin 0) then s
      else if isPlaying s then
        (case fst (play m ((snd (stop s))\<lparr>u_suspendInstanceEvents := True, u_startOffset := Some v\<rparr>)) of
           Inl e \<Rightarrow> snd (play m ((snd (stop s))\<lparr>u_suspendInstanceEvents := True, u_startOffset := Some v\<rparr>))
         | Inr b \<Rightarrow> (snd (play m ((snd (stop s))\<lparr>u_suspendInstanceEvents := True, u_startOffset := Some v\<rparr>)))
                     \<lparr>u_suspendInstanceEvents := u_suspendInstanceEvents s\<rparr>)
      else s\<lparr>u_startOffset := Some v, u_currentTime := v,
             u_calculatedCurrentTimeAt := ctx_currentTime m\<rparr>)"
  by (simp add: currentTime_set_def Let_def split: prod.splits sum.splits)

lemma currentTime_set_frame [simp]:
  "u_sound (snd (currentTime_set m v s)) = u_sound s"
  "u_startTime (snd (currentTime_set m v s)) = u_startTime s"
  "u_duration (snd (currentTime_set m v s)) = u_duration s"
  "u_firstNode (snd (currentTime_set m v s)) = u_firstNode s"
  "u_lastNode (snd (currentTime_set m v s)) = u_lastNode s"
  by (simp_all add: snd_currentTime_set split: sum.splits)

lemma duration_get_currentTime_set [simp]: "duration_get (snd (currentTime_set m v s)) = duration_get s"
  by (simp add: duration_get_def split: option.splits)

lemma snd_startTime_set:
  "snd (startTime_set m v s) =
     (if isPlaying s
      then snd (play m (snd (stop (s\<lparr>u_startTime := js_max (Fin 0) (js_or0 v)\<rparr>))))
      else snd (stop (s\<lparr>u_startTime := js_max (Fin 0) (js_or0 v)\<rparr>)))"
  by (simp add: startTime_set_def Let_def isPlaying_def split: prod.splits sum.splits)

lemma startTime_set_frame [simp]:
  "u_sound (snd (startTime_set m v s)) = u_sound s"
  "u_suspendInstanceEvents (snd (startTime_set m v s)) = u_suspendInstanceEvents s"
  "u_duration (snd (startTime_set m v s)) = u_duration s"
  "u_firstNode (snd (startTime_set m v s)) = u_firstNode s"
  "u_lastNode (snd (startTime_set m v s)) = u_lastNode s"
  by (simp_all add: snd_startTime_set)

lemma duration_get_startTime_set [simp]: "duration_get (snd (startTime_set m v s)) = duration_get s"
  by (simp add: duration_get_def split: option.splits)

lemma snd_duration_set:
  "snd (duration_set m v s) =
     (if isPlaying s
      then snd (play m (snd (stop (s\<lparr>u_duration := js_max (Fin 0) (js_or0 v)\<rparr>))))
      else snd (stop (s\<lparr>u_duration := js_max (Fin 0) (js_or0 v)\<rparr>)))"
  by (simp add: duration_set_def Let_def isPlaying_def split: prod.splits sum.splits)

lemma duration_set_frame [simp]:
  "u_sound (snd (duration_set m v s)) = u_sound s"
  "u_suspendInstanceEvents (snd (duration_set m v s)) = u_suspendInstanceEvents s"
  "u_startTime (snd (duration_set m v s)) = u_startTime s"
  "u_firstNode (snd (duration_set m v s)) = u_firstNode s"
  "u_lastNode (snd (duration_set m v s)) = u_lastNode s"
  by (simp_all add: snd_duration_set)

lemma setExternalNodes_frame [simp]:
  "u_volume (snd (setExternalNodes f l s)) = u_volume s"
  "u_pitch (snd (setExternalNodes f l s)) = u_pitch s"
  "u_loop (snd (setExternalNodes f l s)) = u_loop s"
  "u_sound (snd (setExternalNodes f l s)) = u_sound s"
  "u_state (snd (setExternalNodes f l s)) = u_state s"
  "u_suspended (snd (setExternalNodes f l s)) = u_suspended s"
  "u_suspendEndEvent (snd (setExternalNodes f l s)) = u_suspendEndEvent s"
  "u_suspendInstanceEvents (snd (setExternalNodes f l s)) = u_suspendInstanceEvents s"
  "u_startTime (snd (setExternalNodes f l s)) = u_startTime s"
  "u_duration (snd (setExternalNodes f l s)) = u_duration s"
  "u_startedAt (snd (setExternalNodes f l s)) = u_startedAt s"
  "u_startOffset (snd (setExternalNodes f l s)) = u_startOffset s"
  "u_currentTime (snd (setExternalNodes f l s)) = u_currentTime s"
  "u_calculatedCurrentTimeAt (snd (setExternalNodes f l s)) = u_calculatedCurrentTimeAt s"
  "u_playWhenLoaded (snd (setExternalNodes f l s)) = u_playWhenLoaded s"
  "source (snd (setExternalNodes f l s)) = source s"
  "gain_value (snd (setExternalNodes f l s)) = gain_value s"
  "subscribed (snd (setExternalNodes f l s)) = subscribed s"
  "fired (snd (setExternalNodes f l s)) = fired s"
  "next_source (snd (setExternalNodes f l s)) = next_source s"
  by (simp_all add: setExternalNodes_def disconnect_def connect_def Let_def split: option.splits)

lemma duration_get_setExternalNodes [simp]: "duration_get (snd (setExternalNodes f l s)) = duration_get s"
  by (simp add: duration_get_def split: option.splits)

lemma clearExternalNodes_frame [simp]:
  "u_volume (snd (clearExternalNodes s)) = u_volume s"
  "u_pitch (snd (clearExternalNodes s)) = u_pitch s"
  "u_loop (snd (clearExternalNodes s)) = u_loop s"
  "u_sound (snd (clearExternalNodes s)) = u_sound s"
  "u_state (snd (clearExternalNodes s)) = u_state s"
  "u_suspended (snd (clearExternalNodes s)) = u_suspended s"
  "u_suspendEndEvent (snd (clearExternalNodes s)) = u_suspendEndEvent s"
  "u_suspendInstanceEvents (snd (clearExternalNodes s)) = u_suspendInstanceEvents s"
  "u_startTime (snd (clearExternalNodes s)) = u_startTime s"
  "u_duration (snd (clearExternalNodes s)) = u_duration s"
  "u_startedAt (snd (clearExternalNodes s)) = u_startedAt s"
  "u_startOffset (snd (clearExternalNodes s)) = u_startOffset s"
  "u_currentTime (snd (clearExternalNodes s)) = u_currentTime s"
  "u_calculatedCurrentTimeAt (snd (clearExternalNodes s)) = u_calculatedCurrentTimeAt s"
  "u_playWhenLoaded (snd (clearExternalNodes s)) = u_playWhenLoaded s"
  "source (snd (clearExternalNodes s)) = source s"
  "gain_value (snd (clearExternalNodes s)) = gain_value s"
  "subscribed (snd (clearExternalNodes s)) = subscribed s"
  "fired (snd (clearExternalNodes s)) = fired s"
  "next_source (snd (clearExternalNodes s)) = next_source s"
  by (simp_all add: clearExternalNodes_def disconnect_def connect_def Let_def split: option.splits)

lemma duration_get_clearExternalNodes [simp]: "duration_get (snd (clearExternalNodes s)) = duration_get s"
  by (simp add: duration_get_def split: option.splits)

section \<open>Evaluating concrete instances\<close>

lemmas number_defs =
  capTime_def js_or0_def js_max_def js_min_def js_ge_def js_le_def js_sub_def fmod_def

text \<open>The concrete instances, field by field.\<close>

lemma fresh10_eq:
  "fresh10 =
     \<lparr>u_volume = Fin 1, u_pitch = Fin 1, u_loop = False, u_sound = Some sound10,
      u_state = Stopped, u_suspended = False, u_suspendEndEvent = False,
      u_suspendInstanceEvents = False, u_startTime = Fin 0, u_duration = Fin 0,
      u_startedAt = Fin 0, u_startOffset = None, u_currentTime = Fin 0,
      u_calculatedCurrentTimeAt = Fin 0, u_playWhenLoaded = True, u_firstNode = None,
      u_lastNode = None,
      source = Some \<lparr>src_id = 0, started = False, buffer_duration = Fin 10, loopStart = Fin 0,
                       loopEnd = Fin 0, src_loop = False, playbackRate = Fin 1\<rparr>,
      gain_value = Fin 1, edges = {(Source 0, Gain), (Gain, Destination)},
      subscribed = False, fired = [EvReady],
      calls = [Connect Gain Destination, Connect (Source 0) Gain], next_source = Suc 0\<rparr>"
  by (simp add: fresh10_def sound10_def no_options_def SoundInstance_def initializeNodes_def
      createSource_def connect_edge_def fire_def inputNode_def connectorNode_def number_defs Let_def)

lemma played10_eq:
  "played10 =
     \<lparr>u_volume = Fin 1, u_pitch = Fin 1, u_loop = False, u_sound = Some sound10,
      u_state = Playing, u_suspended = False, u_suspendEndEvent = False,
      u_suspendInstanceEvents = False, u_startTime = Fin 0, u_duration = Fin 0,
      u_startedAt = Fin 1, u_startOffset = None, u_currentTime = Fin 0,
      u_calculatedCurrentTimeAt = Fin 1, u_playWhenLoaded = False, u_firstNode = None,
      u_lastNode = None,
      source = Some \<lparr>src_id = 0, started = True, buffer_duration = Fin 10, loopStart = Fin 0,
                       loopEnd = Fin 0, src_loop = False, playbackRate = Fin 1\<rparr>,
      gain_value = Fin 1, edges = {(Source 0, Gain), (Gain, Destination)},
      subscribed = True, fired = [EvReady, EvPlay],
      calls = [Connect Gain Destination, Connect (Source 0) Gain, Start 0 (Fin 0) None],
      next_source = Suc 0\<rparr>"
  by (simp add: played10_def fresh10_eq manager_at_def sound10_def play_def
      source_start_def start_error_def volume_set_def loop_set_def pitch_set_def clamp_def duration_get_def
      fire_def number_defs Let_def)

lemma paused10_eq:
  "paused10 =
     \<lparr>u_volume = Fin 1, u_pitch = Fin 1, u_loop = False, u_sound = Some sound10,
      u_state = Paused, u_suspended = False, u_suspendEndEvent = True,
      u_suspendInstanceEvents = False, u_startTime = Fin 0, u_duration = Fin 0,
      u_startedAt = Fin 1, u_startOffset = None, u_currentTime = Fin 1,
      u_calculatedCurrentTimeAt = Fin 2, u_playWhenLoaded = False, u_firstNode = None,
      u_lastNode = None,
      source = Some \<lparr>src_id = 1, started = False, buffer_duration = Fin 10, loopStart = Fin 0,
                       loopEnd = Fin 0, src_loop = False, playbackRate = Fin 1\<rparr>,
      gain_value = Fin 1, edges = {(Source 1, Gain), (Source 0, Gain), (Gain, Destination)},
      subscribed = True, fired = [EvReady, EvPlay, EvReady, EvPause],
      calls = [Connect Gain Destination, Connect (Source 0) Gain, Start 0 (Fin 0) None,
               StopNow 0, Connect (Source 1) Gain],
      next_source = Suc (Suc 0)\<rparr>"
  by (simp add: paused10_def played10_eq manager_at_def sound10_def pause_def
      source_stop_def createSource_def connect_edge_def inputNode_def duration_get_def
      fire_def number_defs Let_def)

lemma resumed10_eq:
  "resumed10 =
     \<lparr>u_volume = Fin 1, u_pitch = Fin 1, u_loop = False, u_sound = Some sound10,
      u_state = Playing, u_suspended = False, u_suspendEndEvent = True,
      u_suspendInstanceEvents = False, u_startTime = Fin 0, u_duration = Fin 0,
      u_startedAt = Fin 1, u_startOffset = None, u_currentTime = Fin 4,
      u_calculatedCurrentTimeAt = Fin 5, u_playWhenLoaded = False, u_firstNode = None,
      u_lastNode = None,
      source = Some \<lparr>src_id = 1, started = True, buffer_duration = Fin 10, loopStart = Fin 0,
                       loopEnd = Fin 0, src_loop = False, playbackRate = Fin 1\<rparr>,
      gain_value = Fin 1, edges = {(Source 1, Gain), (Source 0, Gain), (Gain, Destination)},
      subscribed = True, fired = [EvReady, EvPlay, EvReady, EvPause, EvResume],
      calls = [Connect Gain Destination, Connect (Source 0) Gain, Start 0 (Fin 0) None,
               StopNow 0, Connect (Source 1) Gain, Start 1 (Fin 1) None],
      next_source = Suc (Suc 0)\<rparr>"
  by (simp add: resumed10_def paused10_eq manager_at_def sound10_def resume_def
      source_start_def start_error_def volume_set_def loop_set_def pitch_set_def clamp_def duration_get_def
      fire_def number_defs Let_def)

section \<open>The duration property\<close>

text \<open>
  C2, as the code has it. For an instance whose sound is set, with a finite window
  duration \<open>w \<ge> 0\<close> and a finite resource duration \<open>r \<ge> 0\<close>, reading \<open>duration\<close>
  returns \<open>r\<close> when \<open>w = 0\<close> and otherwise \<open>w mod r\<close> (\<open>0\<close> when \<open>r = 0\<close>): the window
  duration is wrapped by the resource duration, and \<open>startTime\<close> plays no part.
\<close>

theorem duration_get_wraps:
  assumes "u_sound s = Some sd" and "s_duration sd = Fin r" and "u_duration s = Fin w"
    and "0 \<le> w" and "0 \<le> r"
  shows "duration_get s =
           (if w = 0 then Fin r
            else if r = 0 then Fin 0
            else Fin (w - r * of_int \<lfloor>w / r\<rfloor>))"
  using assms by (simp add: duration_get_def capTime_def js_or0_def fmod_nonneg)

text \<open>
  An instance made with \<open>duration = 12\<close> on the sound of 10 seconds has a duration
  of 2.
\<close>

theorem duration_get_wraps_witness:
  "u_sound (SoundInstance (manager_at 0) (Some sound10)
             (no_options\<lparr>o_duration := Some (Fin 12)\<rparr>)) = Some sound10
   \<and> s_duration sound10 = Fin 10
   \<and> u_duration (SoundInstance (manager_at 0) (Some sound10)
             (no_options\<lparr>o_duration := Some (Fin 12)\<rparr>)) = Fin 12
   \<and> duration_get (SoundInstance (manager_at 0) (Some sound10)
             (no_options\<lparr>o_duration := Some (Fin 12)\<rparr>)) = Fin 2"
  using duration_get_wraps
    [of "SoundInstance (manager_at 0) (Some sound10) (no_options\<lparr>o_duration := Some (Fin 12)\<rparr>)"
        sound10 10 12]
  by (simp add: sound10_def no_options_def SoundInstance_def initializeNodes_def number_defs)

text \<open>
  The spec's formula fails on the instance made with \<open>startTime = 8\<close> and
  \<open>duration = 3\<close> on a sound of 10 seconds: the getter returns \<open>3\<close>, the formula
  \<open>min(3, 10 - 8) = 2\<close>.
\<close>

theorem duration_get_not_min:
  "u_sound windowed10 = Some sound10 \<and> s_duration sound10 = Fin 10
   \<and> u_duration windowed10 = Fin 3 \<and> u_startTime windowed10 = Fin 8
   \<and> duration_get windowed10 = Fin 3
   \<and> effectiveDuration_spec (Fin 3) (Fin 10) (Fin 8) = Fin 2"
  by (simp add: windowed10_def sound10_def no_options_def SoundInstance_def initializeNodes_def
      duration_get_def effectiveDuration_spec_def number_defs)

section \<open>Reading currentTime\<close>

lemma js_sub_self_mul: "js_mul (js_sub a a) p = Fin 0 \<or> js_mul (js_sub a a) p = NaN"
  by (cases a; cases p) (simp_all add: js_sub_def)

lemma capTime_of_nonfinite_sum:
  assumes "js_mul (js_sub a a) p = NaN"
  shows "capTime (js_add c (js_mul (js_sub a b) p)) d = Fin 0"
proof -
  have "js_add c (js_mul (js_sub a b) p) \<in> {NaN, PInf, NInf}"
    using assms by (cases a; cases b; cases p; cases c) (auto simp: js_sub_def split: if_splits)
  then show ?thesis by auto
qed

text \<open>
  C10. Two consecutive reads of \<open>currentTime\<close> at the same clock value of the manager
  return the same number, and the second read leaves the instance as the first left it.
  This holds in every state, and so in the Playing state, where the first read moves
  \<open>_currentTime\<close> and \<open>_calculatedCurrentTimeAt\<close>: the second read then adds an elapsed
  time of zero and wraps a value that is already wrapped.
\<close>

theorem currentTime_get_twice:
  "fst (currentTime_get m (snd (currentTime_get m s))) = fst (currentTime_get m s)
   \<and> snd (currentTime_get m (snd (currentTime_get m s))) = snd (currentTime_get m s)"
proof (cases "u_startOffset s = None \<and> \<not> isStopped s \<and> source s \<noteq> None \<and> \<not> isPaused s")
  case False
  then have "snd (currentTime_get m s) = s"
    by (auto simp: currentTime_get_def isStopped_def isPaused_def split: option.splits)
  then show ?thesis by simp
next
  case True
  let ?now = "ctx_currentTime m"
  let ?c1 = "capTime (js_add (u_currentTime s)
               (js_mul (js_sub ?now (u_calculatedCurrentTimeAt s)) (u_pitch s))) (duration_get s)"
  let ?s1 = "s\<lparr>u_currentTime := ?c1, u_calculatedCurrentTimeAt := ?now\<rparr>"
  have first: "currentTime_get m s = (?c1, ?s1)"
    using True by (auto simp: currentTime_get_def Let_def)
  have second: "currentTime_get m ?s1 =
      (capTime (js_add ?c1 (js_mul (js_sub ?now ?now) (u_pitch s))) (duration_get s),
       s\<lparr>u_currentTime := capTime (js_add ?c1 (js_mul (js_sub ?now ?now) (u_pitch s)))
                              (duration_get s),
         u_calculatedCurrentTimeAt := ?now\<rparr>)"
    using True
    by (auto simp: currentTime_get_def Let_def isStopped_def isPaused_def)
  have same: "capTime (js_add ?c1 (js_mul (js_sub ?now ?now) (u_pitch s))) (duration_get s) = ?c1"
    using js_sub_self_mul [of ?now "u_pitch s"]
  proof
    assume "js_mul (js_sub ?now ?now) (u_pitch s) = Fin 0"
    then show ?thesis by (simp add: capTime_idem)
  next
    assume n: "js_mul (js_sub ?now ?now) (u_pitch s) = NaN"
    then show ?thesis by (simp add: capTime_of_nonfinite_sum [OF n])
  qed
  show ?thesis
    by (simp only: first snd_conv fst_conv second same)
qed

section \<open>Pause and resume\<close>

text \<open>
  C1, evaluated on the code. A fresh instance of a ten-second sound at pitch 1 is played
  with the manager's clock at 1, paused at 2 and resumed at 5. The three calls succeed
  and the state is Playing again. At the moment of \<open>pause()\<close> the position is \<open>1\<close>, and
  it is still \<open>1\<close> when read while paused; read right after \<open>resume()\<close>, with the
  clock still at 5, it is \<open>4\<close>: the three seconds spent paused have been added, by the
  pitch setter that \<open>resume\<close> calls, which integrates from the checkpoint that
  \<open>pause\<close> left at 2.
\<close>

theorem resume_adds_paused_interval:
  "fst (play (manager_at 1) fresh10) = Inr True
   \<and> fst (pause (manager_at 2) played10) = True
   \<and> fst (resume (manager_at 5) paused10) = Inr True
   \<and> u_state resumed10 = Playing
   \<and> fst (currentTime_get (manager_at 2) played10) = Fin 1
   \<and> fst (currentTime_get (manager_at 5) paused10) = Fin 1
   \<and> fst (currentTime_get (manager_at 5) resumed10) = Fin 4"
proof -
  have "fst (play (manager_at 1) fresh10) = Inr True"
    by (simp add: fresh10_eq play_def source_start_def start_error_def sound10_def
        duration_get_def number_defs Let_def)
  moreover have "fst (pause (manager_at 2) played10) = True"
    by (simp add: played10_eq pause_def Let_def)
  moreover have "fst (resume (manager_at 5) paused10) = Inr True"
    by (simp add: paused10_eq resume_def source_start_def start_error_def sound10_def
        duration_get_def number_defs Let_def)
  moreover have "u_state resumed10 = Playing"
    by (simp add: resumed10_eq)
  moreover have "fst (currentTime_get (manager_at 2) played10) = Fin 1"
    by (simp add: played10_eq currentTime_get_def isStopped_def isPaused_def manager_at_def
        sound10_def duration_get_def number_defs Let_def)
  moreover have "fst (currentTime_get (manager_at 5) paused10) = Fin 1"
    by (simp add: paused10_eq currentTime_get_def isStopped_def isPaused_def)
  moreover have "fst (currentTime_get (manager_at 5) resumed10) = Fin 4"
    by (simp add: resumed10_eq currentTime_get_def isStopped_def isPaused_def manager_at_def
        sound10_def duration_get_def number_defs Let_def)
  ultimately show ?thesis by simp
qed

section \<open>Seeking while stopped, then playing\<close>

text \<open>The calls already made on the audio context stay at the front of the log.\<close>

lemma calls_createSource: "prefix (calls s) (calls (createSource s))"
  by (simp add: createSource_def Let_def connect_edge_def fire_def split: option.splits)

lemma calls_pause: "prefix (calls s) (calls (snd (pause m s)))"
proof -
  have "prefix (calls s) (calls (source_stop s))"
    by (simp add: source_stop_def split: option.splits)
  moreover have "prefix (calls (source_stop s)) (calls (createSource (source_stop s)))"
    by (rule calls_createSource)
  ultimately have "prefix (calls s) (calls (createSource (source_stop s)))"
    by (rule prefix_order.trans)
  moreover have "calls (createSource (source_stop (s\<lparr>u_state := Paused,
      u_currentTime := c, u_calculatedCurrentTimeAt := t, u_suspendEndEvent := True\<rparr>)))
      = calls (createSource (source_stop s))" for c t
    by (simp add: createSource_def Let_def connect_edge_def fire_def source_stop_def
        split: option.splits)
  ultimately show ?thesis
    by (simp add: pause_def Let_def)
qed

lemma calls_onManagerSuspend:
  "prefix xs (calls s) \<Longrightarrow> prefix xs (calls (onManagerSuspend m s))"
proof -
  assume a: "prefix xs (calls s)"
  have "prefix (calls s) (calls (onManagerSuspend m s))"
    using calls_pause [of "s\<lparr>u_suspended := True\<rparr>" m]
    by (simp add: onManagerSuspend_def)
  with a show ?thesis by (rule prefix_order.trans)
qed

lemma start_error_None:
  assumes "\<not> started src" and "js_finite offset" and "js_le (Fin 0) offset"
    and "dur = None \<or> (\<exists>w. dur = Some (Fin w) \<and> 0 \<le> w)"
  shows "start_error offset dur src = None"
  using assms by (auto simp: start_error_def js_le_def)

lemma windowed10_eq:
  "windowed10 =
     \<lparr>u_volume = Fin 1, u_pitch = Fin 1, u_loop = False, u_sound = Some sound10,
      u_state = Stopped, u_suspended = False, u_suspendEndEvent = False,
      u_suspendInstanceEvents = False, u_startTime = Fin 8, u_duration = Fin 3,
      u_startedAt = Fin 0, u_startOffset = None, u_currentTime = Fin 0,
      u_calculatedCurrentTimeAt = Fin 0, u_playWhenLoaded = True, u_firstNode = None,
      u_lastNode = None,
      source = Some \<lparr>src_id = 0, started = False, buffer_duration = Fin 10, loopStart = Fin 8,
                       loopEnd = Fin 8, src_loop = False, playbackRate = Fin 1\<rparr>,
      gain_value = Fin 1, edges = {(Source 0, Gain), (Gain, Destination)},
      subscribed = False, fired = [EvReady],
      calls = [Connect Gain Destination, Connect (Source 0) Gain], next_source = Suc 0\<rparr>"
  by (simp add: windowed10_def sound10_def no_options_def SoundInstance_def initializeNodes_def
      createSource_def connect_edge_def fire_def inputNode_def connectorNode_def number_defs Let_def)

lemma seeked10_eq:
  "seeked10 = windowed10\<lparr>u_startOffset := Some (Fin 5), u_currentTime := Fin 5,
                         u_calculatedCurrentTimeAt := Fin 0\<rparr>"
  by (simp add: seeked10_def currentTime_set_def isPlaying_def windowed10_eq manager_at_def)

lemma seeked10_play_calls:
  "calls (snd (play (manager_at 1) seeked10))
     = calls windowed10 @ [Start 0 (Fin 0) (Some (Fin 3))]"
  by (simp add: seeked10_eq windowed10_eq play_def source_start_def start_error_def
      manager_at_def sound10_def duration_get_def number_defs Let_def)

text \<open>
  C7, as the code has it. Let the instance be stopped, with a sound, with a source that
  has not been started, with \<open>startTime \<ge> 0\<close> and a finite window duration \<open>\<ge> 0\<close>, and
  let \<open>currentTime\<close> be set to a number \<open>x \<ge> 0\<close>. The setter stores \<open>x\<close> as the pending
  offset. A following \<open>play()\<close> clears the pending offset, and the first call it makes
  on the audio context is \<open>start(0, offset[, duration])\<close> on the present source, with
  \<open>offset = capTime(startTime + capTime(x, d), sound.duration)\<close>, where \<open>d\<close> is the value
  of the instance's \<open>duration\<close> property (not the spec's effectiveDuration): \<open>x\<close> wrapped
  by \<open>d\<close>, moved into the resource, and wrapped again.
\<close>

theorem seek_then_play:
  assumes "u_state s = Stopped" and "u_sound s = Some sd"
    and "source s = Some src" and "\<not> started src"
    and "js_le (Fin 0) (u_startTime s)" and "u_duration s = Fin w" and "0 \<le> w"
    and "js_le (Fin 0) x"
  shows "u_startOffset (snd (currentTime_set m x s)) = Some x
       \<and> u_startOffset (snd (play m' (snd (currentTime_set m x s)))) = None
       \<and> prefix (calls s @
            [Start (src_id src)
              (capTime (js_add (u_startTime s) (capTime x (duration_get s))) (s_duration sd))
              (if js_truthy (u_duration s) then Some (u_duration s) else None)])
           (calls (snd (play m' (snd (currentTime_set m x s)))))"
proof -
  have nlt: "\<not> js_lt x (Fin 0)"
    using assms(8) by (simp add: js_le_def)
  let ?s1 = "s\<lparr>u_startOffset := Some x, u_currentTime := x,
                u_calculatedCurrentTimeAt := ctx_currentTime m\<rparr>"
  let ?off = "capTime (js_add (u_startTime s) (capTime x (duration_get s))) (s_duration sd)"
  let ?dur = "if js_truthy (u_duration s) then Some (u_duration s) else None"
  have s1: "snd (currentTime_set m x s) = ?s1"
    using assms(1) nlt by (simp add: currentTime_set_def isPlaying_def)
  have "js_le (Fin 0) (js_add (u_startTime s) (capTime x (duration_get s)))"
    using assms(5,8) by (simp add: js_add_nonneg capTime_nonneg)
  then have off: "js_le (Fin 0) ?off" by (rule capTime_nonneg)
  have ok: "start_error ?off ?dur src = None"
    using assms(4,6,7) off by (intro start_error_None) auto
  have st: "source_start ?off ?dur (?s1\<lparr>u_startOffset := None\<rparr>)
      = Inr (?s1\<lparr>u_startOffset := None, source := Some (src\<lparr>started := True\<rparr>),
                calls := calls s @ [Start (src_id src) ?off ?dur]\<rparr>)"
    using assms(3) ok by (simp add: source_start_def)
  have b: "u_startOffset (snd (play m' ?s1)) = None"
    using assms(1,2,3) st
    by (simp add: play_def Let_def onManagerSuspend_def pause_def split: if_splits)
  have c: "prefix (calls s @ [Start (src_id src) ?off ?dur]) (calls (snd (play m' ?s1)))"
    using assms(1,2,3) st
    by (simp add: play_def Let_def calls_onManagerSuspend split: if_splits)
  show ?thesis
    unfolding s1 using b c by simp
qed

text \<open>
  On the instance made with \<open>startTime = 8\<close> and \<open>duration = 3\<close> on the ten-second
  sound, \<open>currentTime = 5\<close> and then \<open>play()\<close> start the source at offset 0.
\<close>

theorem seek_then_play_witness:
  "u_state windowed10 = Stopped \<and> u_sound windowed10 = Some sound10
   \<and> source windowed10
       = Some \<lparr>src_id = 0, started = False, buffer_duration = Fin 10, loopStart = Fin 8,
                 loopEnd = Fin 8, src_loop = False, playbackRate = Fin 1\<rparr>
   \<and> js_le (Fin 0) (u_startTime windowed10) \<and> u_duration windowed10 = Fin 3
   \<and> js_le (Fin 0) (Fin 5)
   \<and> u_startOffset (snd (currentTime_set (manager_at 0) (Fin 5) windowed10)) = Some (Fin 5)
   \<and> u_startOffset (snd (play (manager_at 1)
         (snd (currentTime_set (manager_at 0) (Fin 5) windowed10)))) = None
   \<and> prefix (calls windowed10 @ [Start 0 (Fin 0) (Some (Fin 3))])
         (calls (snd (play (manager_at 1)
           (snd (currentTime_set (manager_at 0) (Fin 5) windowed10)))))"
  using seek_then_play [of windowed10 sound10
      "\<lparr>src_id = 0, started = False, buffer_duration = Fin 10, loopStart = Fin 8,
        loopEnd = Fin 8, src_loop = False, playbackRate = Fin 1\<rparr>"
      3 "Fin 5" "manager_at 0" "manager_at 1"]
  by (simp add: windowed10_eq sound10_def duration_get_def number_defs)

text \<open>
  On that instance the spec's effectiveDuration is \<open>min(3, 10 - 8) = 2\<close>, and the claim's
  offset for \<open>x = 5\<close> is \<open>(8 + 5 mod 2) mod 10 = 9\<close>; the code starts the source at
  \<open>(8 + 5 mod 3) mod 10 = 0\<close>.
\<close>

theorem seek_offset_not_spec:
  "u_state windowed10 = Stopped \<and> u_sound windowed10 = Some sound10
   \<and> s_duration sound10 = Fin 10
   \<and> u_startTime windowed10 = Fin 8 \<and> u_duration windowed10 = Fin 3
   \<and> seeked10 = snd (currentTime_set (manager_at 0) (Fin 5) windowed10)
   \<and> calls (snd (play (manager_at 1) seeked10))
       = calls windowed10 @ [Start 0 (Fin 0) (Some (Fin 3))]
   \<and> effectiveDuration_spec (Fin 3) (Fin 10) (Fin 8) = Fin 2
   \<and> seekOffset_spec (Fin 5) (Fin 3) (Fin 10) (Fin 8) = Fin 9"
proof -
  have a: "u_state windowed10 = Stopped \<and> u_sound windowed10 = Some sound10
      \<and> s_duration sound10 = Fin 10
      \<and> u_startTime windowed10 = Fin 8 \<and> u_duration windowed10 = Fin 3"
    by (simp add: windowed10_eq sound10_def)
  have b: "seeked10 = snd (currentTime_set (manager_at 0) (Fin 5) windowed10)"
    by (rule seeked10_def)
  have c: "effectiveDuration_spec (Fin 3) (Fin 10) (Fin 8) = Fin 2
      \<and> seekOffset_spec (Fin 5) (Fin 3) (Fin 10) (Fin 8) = Fin 9"
    by (simp add: seekOffset_spec_def effectiveDuration_spec_def number_defs)
  from a b seeked10_play_calls c show ?thesis by blast
qed

section \<open>The source and the state\<close>

text \<open>The instance after one operation.\<close>

lemma snd_step [simp]:
  "snd (step m Play s) = snd (play m s)"
  "snd (step m Pause s) = snd (pause m s)"
  "snd (step m Resume s) = snd (resume m s)"
  "snd (step m Stop s) = snd (stop s)"
  "snd (step m (SetExternalNodes f l) s) = snd (setExternalNodes f l s)"
  "snd (step m ClearExternalNodes s) = snd (clearExternalNodes s)"
  "snd (step m GetCurrentTime s) = snd (currentTime_get m s)"
  "snd (step m (SetCurrentTime v) s) = snd (currentTime_set m v s)"
  "snd (step m (SetVolume v) s) = volume_set m v s"
  "snd (step m (SetPitch v) s) = pitch_set m v s"
  "snd (step m (SetLoop b) s) = loop_set b s"
  "snd (step m (SetSound sd) s) = sound_set sd s"
  "snd (step m (SetStartTime v) s) = snd (startTime_set m v s)"
  "snd (step m (SetDuration v) s) = snd (duration_set m v s)"
  "snd (step m Ended s) = onEnded s"
  "snd (step m ManagerVolumeChange s) = (if subscribed s then onManagerVolumeChange m s else s)"
  "snd (step m ManagerSuspend s) = (if subscribed s then onManagerSuspend m s else s)"
  "snd (step m ManagerResume s) = (if subscribed s then snd (onManagerResume m s) else s)"
  "snd (step m ManagerDestroy s) = (if subscribed s then onManagerDestroy s else s)"
  by (simp_all split: prod.splits sum.splits)

declare step.simps [simp del]

text \<open>
  No member but \<open>_onManagerDestroy\<close> takes the source away: where the source is null
  after a member has run, it was null before.
\<close>

lemma source_createSource: "source (createSource s) = None \<Longrightarrow> source s = None"
  by (simp add: createSource_def Let_def connect_edge_def fire_def split: option.splits if_splits)

lemma source_loop_set [simp]: "(source (loop_set b s) = None) = (source s = None)"
  by (simp add: loop_set_def Let_def split: option.splits)

lemma source_pitch_set [simp]: "(source (pitch_set m p s) = None) = (source s = None)"
  by (simp add: pitch_set_def Let_def split: option.splits)

lemma source_stop: "source (snd (stop s)) = None \<Longrightarrow> source s = None"
  by (auto simp: stop_def Let_def split: if_splits dest!: source_createSource)

lemma source_pause: "source (snd (pause m s)) = None \<Longrightarrow> source s = None"
  by (auto simp: pause_def Let_def split: if_splits dest!: source_createSource)

lemma source_onManagerSuspend: "source (onManagerSuspend m s) = None \<Longrightarrow> source s = None"
  by (auto simp: onManagerSuspend_def split: if_splits dest!: source_pause)

lemma source_play: "source (snd (play m s)) = None \<Longrightarrow> source s = None"
  by (auto simp: play_def Let_def source_start_def split: if_splits option.splits
      dest!: source_onManagerSuspend source_stop)

lemma source_resume: "source (snd (resume m s)) = None \<Longrightarrow> source s = None"
  by (auto simp: resume_def Let_def source_start_def split: if_splits option.splits)

lemma source_onEnded: "source (onEnded s) = None \<Longrightarrow> source s = None"
  by (auto simp: onEnded_def split: if_splits dest!: source_stop)

lemma source_onManagerResume: "source (snd (onManagerResume m s)) = None \<Longrightarrow> source s = None"
  by (auto simp: snd_onManagerResume split: if_splits dest!: source_resume)

lemma source_sound_set: "source (sound_set v s) = None \<Longrightarrow> source s = None"
  by (auto simp: sound_set_def Let_def split: if_splits dest!: source_stop source_createSource)

lemma source_currentTime_set: "source (snd (currentTime_set m v s)) = None \<Longrightarrow> source s = None"
  by (auto simp: snd_currentTime_set split: if_splits sum.splits dest!: source_play source_stop)

lemma source_startTime_set: "source (snd (startTime_set m v s)) = None \<Longrightarrow> source s = None"
  by (auto simp: snd_startTime_set split: if_splits dest!: source_play source_stop)

lemma source_duration_set: "source (snd (duration_set m v s)) = None \<Longrightarrow> source s = None"
  by (auto simp: snd_duration_set split: if_splits dest!: source_play source_stop)

lemma source_step:
  "x \<noteq> ManagerDestroy \<Longrightarrow> source (snd (step m x s)) = None \<Longrightarrow> source s = None"
proof (cases x)
  case Play then show "source (snd (step m x s)) = None \<Longrightarrow> source s = None"
    by (auto dest: source_play)
next
  case Pause then show "source (snd (step m x s)) = None \<Longrightarrow> source s = None"
    by (auto dest: source_pause)
next
  case Resume then show "source (snd (step m x s)) = None \<Longrightarrow> source s = None"
    by (auto dest: source_resume)
next
  case Stop then show "source (snd (step m x s)) = None \<Longrightarrow> source s = None"
    by (auto dest: source_stop)
next
  case (SetCurrentTime v) then show "source (snd (step m x s)) = None \<Longrightarrow> source s = None"
    by (auto dest: source_currentTime_set)
next
  case (SetSound v) then show "source (snd (step m x s)) = None \<Longrightarrow> source s = None"
    by (auto dest: source_sound_set)
next
  case (SetStartTime v) then show "source (snd (step m x s)) = None \<Longrightarrow> source s = None"
    by (auto dest: source_startTime_set)
next
  case (SetDuration v) then show "source (snd (step m x s)) = None \<Longrightarrow> source s = None"
    by (auto dest: source_duration_set)
next
  case Ended then show "source (snd (step m x s)) = None \<Longrightarrow> source s = None"
    by (auto dest: source_onEnded)
next
  case ManagerSuspend then show "source (snd (step m x s)) = None \<Longrightarrow> source s = None"
    by (auto dest: source_onManagerSuspend split: if_splits)
next
  case ManagerResume then show "source (snd (step m x s)) = None \<Longrightarrow> source s = None"
    by (auto dest: source_onManagerResume split: if_splits)
qed (simp_all split: if_splits)

text \<open>A stopped instance without a source stays stopped, whatever is done to it.\<close>

lemma idle_stop: "source s = None \<Longrightarrow> snd (stop s) = s"
  by (simp add: stop_def)

lemma idle_play: "source s = None \<Longrightarrow> play m s = (Inr False, s)"
  by (simp add: play_def idle_stop)

lemma idle_pause: "source s = None \<Longrightarrow> snd (pause m s) = s"
  by (simp add: pause_def)

lemma idle_resume: "source s = None \<Longrightarrow> snd (resume m s) = s"
  by (simp add: resume_def)

lemma state_createSource [simp]: "u_state (createSource s) = u_state s"
  by (simp add: createSource_def Let_def connect_edge_def fire_def split: option.splits)

lemma state_loop_set [simp]: "u_state (loop_set b s) = u_state s"
  by (simp add: loop_set_def Let_def split: option.splits)

lemma state_pitch_set [simp]: "u_state (pitch_set m p s) = u_state s"
  by (simp add: pitch_set_def Let_def split: option.splits)

lemma idle_onEnded: "source s = None \<Longrightarrow> u_state (onEnded s) = u_state s"
  by (simp add: onEnded_def idle_stop)

lemma idle_onManagerSuspend: "u_state s = Stopped \<Longrightarrow> onManagerSuspend m s = s"
  by (simp add: onManagerSuspend_def isPlaying_def)

lemma idle_onManagerResume:
  "source s = None \<Longrightarrow> u_state (snd (onManagerResume m s)) = u_state s"
  by (simp add: snd_onManagerResume idle_resume)

lemma idle_sound_set: "u_state s = Stopped \<Longrightarrow> u_state (sound_set v s) = Stopped"
  by (simp add: sound_set_def Let_def isStopped_def)

lemma idle_currentTime_set:
  "u_state s = Stopped \<Longrightarrow> u_state (snd (currentTime_set m v s)) = Stopped"
  by (simp add: snd_currentTime_set isPlaying_def)

lemma idle_startTime_set:
  "source s = None \<Longrightarrow> u_state s = Stopped \<Longrightarrow> u_state (snd (startTime_set m v s)) = Stopped"
  by (simp add: snd_startTime_set isPlaying_def idle_stop)

lemma idle_duration_set:
  "source s = None \<Longrightarrow> u_state s = Stopped \<Longrightarrow> u_state (snd (duration_set m v s)) = Stopped"
  by (simp add: snd_duration_set isPlaying_def idle_stop)

lemma idle_step:
  "source s = None \<Longrightarrow> u_state s = Stopped \<Longrightarrow> u_state (snd (step m x s)) = Stopped"
  by (cases x)
     (simp_all add: idle_stop idle_play idle_pause idle_resume idle_onEnded
        idle_onManagerSuspend idle_onManagerResume idle_sound_set idle_currentTime_set
        idle_startTime_set idle_duration_set onManagerDestroy_def)

lemma source_inv_step:
  assumes "x \<noteq> ManagerDestroy" and "u_state s = Stopped \<or> source s \<noteq> None"
  shows "u_state (snd (step m x s)) = Stopped \<or> source (snd (step m x s)) \<noteq> None"
proof (cases "source s = None")
  case True
  with assms(2) have "u_state s = Stopped" by simp
  with True have "u_state (snd (step m x s)) = Stopped" by (rule idle_step)
  then show ?thesis ..
next
  case False
  have "source (snd (step m x s)) \<noteq> None"
  proof
    assume "source (snd (step m x s)) = None"
    with assms(1) have "source s = None" by (rule source_step)
    with False show False ..
  qed
  then show ?thesis ..
qed

lemma source_inv_run:
  "ManagerDestroy \<notin> snd ` set tr \<Longrightarrow> u_state s = Stopped \<or> source s \<noteq> None
   \<Longrightarrow> u_state (run tr s) = Stopped \<or> source (run tr s) \<noteq> None"
proof (induction tr arbitrary: s)
  case Nil
  then show ?case by simp
next
  case (Cons a tr)
  obtain m x where a: "a = (m, x)" by (cases a)
  from Cons.prems(1) a have x: "x \<noteq> ManagerDestroy" and tr: "ManagerDestroy \<notin> snd ` set tr"
    by auto
  have "u_state (snd (step m x s)) = Stopped \<or> source (snd (step m x s)) \<noteq> None"
    using x Cons.prems(2) by (rule source_inv_step)
  with tr have "u_state (run tr (snd (step m x s))) = Stopped
      \<or> source (run tr (snd (step m x s))) \<noteq> None"
    by (rule Cons.IH)
  then show ?case by (simp add: a)
qed

lemma state_SoundInstance [simp]: "u_state (SoundInstance m sd opts) = Stopped"
  by (simp add: SoundInstance_def initializeNodes_def)

lemma destroyed10_eq:
  "destroyed10 = played10\<lparr>source := None, calls := calls played10 @ [StopNow 0]\<rparr>"
proof -
  have "snd (play (manager_at 1) fresh10) = played10"
    by (simp add: played10_def)
  then show ?thesis
    by (simp add: destroyed10_def played10_eq onManagerDestroy_def isPlaying_def source_stop_def)
qed

lemma silent_eq:
  "source silent = None" "u_state silent = Stopped"
  by (simp_all add: silent_def SoundInstance_def initializeNodes_def createSource_def)

text \<open>
  C3, as the code has it. In every state reached from the constructor by a sequence of
  operations (calls of the public methods, reads and writes of the properties, end
  notifications of a source, and the manager's \<open>volumechange\<close>, \<open>suspend\<close> and
  \<open>resume\<close> events) that does not contain the manager's \<open>destroy\<close> event, a state
  other than Stopped implies a source that is not null.
\<close>

theorem source_present_unless_destroyed:
  assumes "ManagerDestroy \<notin> snd ` set tr"
  shows "u_state (run tr (SoundInstance m0 sd opts)) \<noteq> Stopped
         \<longrightarrow> source (run tr (SoundInstance m0 sd opts)) \<noteq> None"
  using source_inv_run [OF assms, of "SoundInstance m0 sd opts"] by auto

text \<open>After \<open>play()\<close> on the fresh instance the state is Playing and the source is there.\<close>

theorem source_present_unless_destroyed_witness:
  "ManagerDestroy \<notin> snd ` set [(manager_at 1, Play)]
   \<and> u_state (run [(manager_at 1, Play)] fresh10) \<noteq> Stopped
   \<and> source (run [(manager_at 1, Play)] fresh10) \<noteq> None"
proof -
  have "run [(manager_at 1, Play)] fresh10 = played10"
    by (simp add: played10_def)
  then show ?thesis
    using source_present_unless_destroyed
      [of "[(manager_at 1, Play)]" "manager_at 0" "Some sound10" no_options]
    by (simp add: fresh10_def [symmetric] played10_eq)
qed

text \<open>
  The manager's \<open>destroy\<close> event on a playing instance stops the source and sets it to
  null, and leaves the state Playing.
\<close>

theorem source_lost_on_destroy:
  "destroyed10 = run [(manager_at 1, Play), (manager_at 2, ManagerDestroy)] fresh10
   \<and> u_state destroyed10 = Playing \<and> source destroyed10 = None"
proof -
  have a: "destroyed10 = run [(manager_at 1, Play), (manager_at 2, ManagerDestroy)] fresh10"
    by (rule destroyed10_def)
  have b: "u_state destroyed10 = Playing \<and> source destroyed10 = None"
    by (simp add: destroyed10_eq played10_eq)
  from a b show ?thesis by (rule conjI)
qed

section \<open>Playing without a source\<close>

text \<open>
  C6, as the code has it. In every state reached from the constructor by a sequence of
  operations that does not contain the manager's \<open>destroy\<close> event, if the source is null
  then \<open>play()\<close> returns false and changes nothing, and the state is Stopped.
\<close>

theorem play_without_source:
  assumes "ManagerDestroy \<notin> snd ` set tr"
    and "source (run tr (SoundInstance m0 sd opts)) = None"
  shows "play m (run tr (SoundInstance m0 sd opts)) = (Inr False, run tr (SoundInstance m0 sd opts))
         \<and> u_state (run tr (SoundInstance m0 sd opts)) = Stopped"
  using source_inv_run [OF assms(1), of "SoundInstance m0 sd opts"] assms(2)
  by (simp add: idle_play)

text \<open>An instance made without a sound has no source; \<open>play()\<close> on it returns false.\<close>

theorem play_without_source_witness:
  "ManagerDestroy \<notin> snd ` set [(manager_at 1, Play)]
   \<and> source (run [(manager_at 1, Play)] silent) = None
   \<and> play (manager_at 2) (run [(manager_at 1, Play)] silent)
       = (Inr False, run [(manager_at 1, Play)] silent)
   \<and> u_state (run [(manager_at 1, Play)] silent) = Stopped"
proof -
  have "run [(manager_at 1, Play)] silent = silent"
    by (simp add: idle_play silent_eq)
  then show ?thesis
    using play_without_source
      [of "[(manager_at 1, Play)]" "manager_at 0" None no_options "manager_at 2"]
    by (simp add: silent_def [symmetric] silent_eq)
qed

text \<open>
  After the manager's \<open>destroy\<close> event on a playing instance the source is null;
  \<open>play()\<close> returns false and the state stays Playing.
\<close>

theorem play_after_destroy_stays_playing:
  "source destroyed10 = None
   \<and> fst (play (manager_at 3) destroyed10) = Inr False
   \<and> u_state (snd (play (manager_at 3) destroyed10)) = Playing"
  by (simp add: idle_play destroyed10_eq played10_eq)


section \<open>Calls that do not raise\<close>

text \<open>
  The two \<open>connect\<close> calls the instance makes between its own nodes do not raise.
\<close>

lemma connect_own_nodes:
  "connect connectorNode Destination s = Inr (connect_edge connectorNode Destination s)"
  "connect (Source n) inputNode s = Inr (connect_edge (Source n) inputNode s)"
  by (simp_all add: connect_def connectorNode_def inputNode_def)

text \<open>
  \<open>source.stop(0)\<close> raises on a source that was never started. The instance calls it
  while Playing only, and in every state reached from the constructor the source of a
  playing instance has been started.
\<close>

lemma source_started_update [simp]:
  "source_started (s\<lparr>u_volume := x0\<rparr>) = source_started s"
  "source_started (s\<lparr>u_pitch := x1\<rparr>) = source_started s"
  "source_started (s\<lparr>u_loop := x2\<rparr>) = source_started s"
  "source_started (s\<lparr>u_sound := x3\<rparr>) = source_started s"
  "source_started (s\<lparr>u_state := x4\<rparr>) = source_started s"
  "source_started (s\<lparr>u_suspended := x5\<rparr>) = source_started s"
  "source_started (s\<lparr>u_suspendEndEvent := x6\<rparr>) = source_started s"
  "source_started (s\<lparr>u_suspendInstanceEvents := x7\<rparr>) = source_started s"
  "source_started (s\<lparr>u_startTime := x8\<rparr>) = source_started s"
  "source_started (s\<lparr>u_duration := x9\<rparr>) = source_started s"
  "source_started (s\<lparr>u_startedAt := x10\<rparr>) = source_started s"
  "source_started (s\<lparr>u_startOffset := x11\<rparr>) = source_started s"
  "source_started (s\<lparr>u_currentTime := x12\<rparr>) = source_started s"
  "source_started (s\<lparr>u_calculatedCurrentTimeAt := x13\<rparr>) = source_started s"
  "source_started (s\<lparr>u_playWhenLoaded := x14\<rparr>) = source_started s"
  "source_started (s\<lparr>u_firstNode := x15\<rparr>) = source_started s"
  "source_started (s\<lparr>u_lastNode := x16\<rparr>) = source_started s"
  "source_started (s\<lparr>gain_value := x18\<rparr>) = source_started s"
  "source_started (s\<lparr>edges := x19\<rparr>) = source_started s"
  "source_started (s\<lparr>subscribed := x20\<rparr>) = source_started s"
  "source_started (s\<lparr>fired := x21\<rparr>) = source_started s"
  "source_started (s\<lparr>calls := x22\<rparr>) = source_started s"
  "source_started (s\<lparr>next_source := x23\<rparr>) = source_started s"
  by (simp_all add: source_started_def)

lemma source_started_set [simp]:
  "source_started (s\<lparr>source := Some src\<rparr>) = started src"
  "source_started (s\<lparr>source := None\<rparr>)"
  by (simp_all add: source_started_def)

lemma source_started_members [simp]:
  "source_started (fire e s) = source_started s"
  "source_started (volume_set m v s) = source_started s"
  "source_started (loop_set b s) = source_started s"
  "source_started (pitch_set m p s) = source_started s"
  by (simp_all add: source_started_def fire_def volume_set_def loop_set_def pitch_set_def
      Let_def split: option.splits)

lemma source_started_source_start:
  "source_start offset dur s = Inr s' \<Longrightarrow> source_started s'"
  by (auto simp: source_start_def source_started_def split: option.splits)

lemma playing_startedI: "source_started s \<Longrightarrow> playing_started s"
  by (simp add: playing_started_def)

lemma playing_started_not_playing: "u_state s \<noteq> Playing \<Longrightarrow> playing_started s"
  by (simp add: playing_started_def)

lemma playing_started_cong:
  "u_state s' = u_state s \<Longrightarrow> source s' = source s
   \<Longrightarrow> playing_started s' = playing_started s"
  by (simp add: playing_started_def source_started_def)

lemma playing_started_update [simp]:
  "playing_started (s\<lparr>u_volume := x0\<rparr>) = playing_started s"
  "playing_started (s\<lparr>u_pitch := x1\<rparr>) = playing_started s"
  "playing_started (s\<lparr>u_loop := x2\<rparr>) = playing_started s"
  "playing_started (s\<lparr>u_sound := x3\<rparr>) = playing_started s"
  "playing_started (s\<lparr>u_suspended := x5\<rparr>) = playing_started s"
  "playing_started (s\<lparr>u_suspendEndEvent := x6\<rparr>) = playing_started s"
  "playing_started (s\<lparr>u_suspendInstanceEvents := x7\<rparr>) = playing_started s"
  "playing_started (s\<lparr>u_startTime := x8\<rparr>) = playing_started s"
  "playing_started (s\<lparr>u_duration := x9\<rparr>) = playing_started s"
  "playing_started (s\<lparr>u_startedAt := x10\<rparr>) = playing_started s"
  "playing_started (s\<lparr>u_startOffset := x11\<rparr>) = playing_started s"
  "playing_started (s\<lparr>u_currentTime := x12\<rparr>) = playing_started s"
  "playing_started (s\<lparr>u_calculatedCurrentTimeAt := x13\<rparr>) = playing_started s"
  "playing_started (s\<lparr>u_playWhenLoaded := x14\<rparr>) = playing_started s"
  "playing_started (s\<lparr>u_firstNode := x15\<rparr>) = playing_started s"
  "playing_started (s\<lparr>u_lastNode := x16\<rparr>) = playing_started s"
  "playing_started (s\<lparr>gain_value := x18\<rparr>) = playing_started s"
  "playing_started (s\<lparr>edges := x19\<rparr>) = playing_started s"
  "playing_started (s\<lparr>subscribed := x20\<rparr>) = playing_started s"
  "playing_started (s\<lparr>fired := x21\<rparr>) = playing_started s"
  "playing_started (s\<lparr>calls := x22\<rparr>) = playing_started s"
  "playing_started (s\<lparr>next_source := x23\<rparr>) = playing_started s"
  by (simp_all add: playing_started_def)

lemma playing_started_members [simp]:
  "playing_started (fire e s) = playing_started s"
  "playing_started (volume_set m v s) = playing_started s"
  "playing_started (loop_set b s) = playing_started s"
  "playing_started (pitch_set m p s) = playing_started s"
  by (simp_all add: playing_started_def)

lemma state_stop: "source s \<noteq> None \<Longrightarrow> u_state (snd (stop s)) = Stopped"
  by (auto simp: stop_def Let_def)

lemma playing_started_stop: "playing_started s \<Longrightarrow> playing_started (snd (stop s))"
proof (cases "source s = None")
  case True
  assume "playing_started s"
  with True show ?thesis by (simp add: idle_stop)
next
  case False
  then have "u_state (snd (stop s)) = Stopped" by (rule state_stop)
  then show ?thesis by (simp add: playing_started_not_playing)
qed

lemma state_pause:
  "u_state s = Playing \<Longrightarrow> source s \<noteq> None \<Longrightarrow> u_state (snd (pause m s)) = Paused"
  by (simp add: pause_def Let_def)

lemma not_playing_pause: "u_state s \<noteq> Playing \<Longrightarrow> snd (pause m s) = s"
  by (simp add: pause_def)

lemma playing_started_pause: "playing_started s \<Longrightarrow> playing_started (snd (pause m s))"
proof -
  assume a: "playing_started s"
  consider "u_state s \<noteq> Playing" | "source s = None" | "u_state s = Playing" "source s \<noteq> None"
    by blast
  then show ?thesis
  proof cases
    case 1
    with a show ?thesis by (simp add: not_playing_pause)
  next
    case 2
    with a show ?thesis by (simp add: idle_pause)
  next
    case 3
    then have "u_state (snd (pause m s)) = Paused" by (rule state_pause)
    then show ?thesis by (simp add: playing_started_not_playing)
  qed
qed

lemma playing_started_onManagerSuspend:
  "playing_started s \<Longrightarrow> playing_started (onManagerSuspend m s)"
proof -
  assume a: "playing_started s"
  then have "playing_started (s\<lparr>u_suspended := True\<rparr>)"
    by simp
  then have "playing_started (snd (pause m (s\<lparr>u_suspended := True\<rparr>)))"
    by (rule playing_started_pause)
  with a show ?thesis by (simp add: onManagerSuspend_def)
qed

(*CUT*)
lemma play_stop: "u_state s \<noteq> Stopped \<Longrightarrow> play m s = play m (snd (stop s))"
proof (cases "source s = None")
  case True
  then show ?thesis by (simp add: idle_stop)
next
  case False
  assume "u_state s \<noteq> Stopped"
  moreover from False have "u_state (snd (stop s)) = Stopped" by (rule state_stop)
  ultimately show ?thesis by (simp add: play_def)
qed

lemma playing_started_play_stopped:
  assumes "u_state s = Stopped"
  shows "playing_started (snd (play m s))"
  using assms
  by (auto simp: play_def Let_def playing_started_not_playing playing_startedI
        playing_started_onManagerSuspend
      dest: source_started_source_start split: option.splits sum.splits)

lemma playing_started_play: "playing_started s \<Longrightarrow> playing_started (snd (play m s))"
proof (cases "u_state s = Stopped")
  case True
  then show ?thesis by (rule playing_started_play_stopped)
next
  case False
  assume a: "playing_started s"
  show ?thesis
  proof (cases "source s = None")
    case True
    with a show ?thesis by (simp add: idle_play)
  next
    case False
    then have "u_state (snd (stop s)) = Stopped" by (rule state_stop)
    then have "playing_started (snd (play m (snd (stop s))))"
      by (rule playing_started_play_stopped)
    with \<open>u_state s \<noteq> Stopped\<close> show ?thesis by (simp add: play_stop)
  qed
qed

(*CUT*)
lemma playing_started_resume: "playing_started s \<Longrightarrow> playing_started (snd (resume m s))"
  by (auto simp: resume_def Let_def playing_startedI
      dest: source_started_source_start split: option.splits sum.splits)

(*CUT*)
lemma playing_started_createSource:
  "u_state s \<noteq> Playing \<Longrightarrow> playing_started (createSource s)"
  by (simp add: playing_started_not_playing)

lemma playing_started_onEnded: "playing_started s \<Longrightarrow> playing_started (onEnded s)"
  by (simp add: onEnded_def playing_started_stop)

lemma playing_started_onManagerDestroy: "playing_started s \<Longrightarrow> playing_started (onManagerDestroy s)"
  by (simp add: onManagerDestroy_def playing_startedI)

lemma playing_started_onManagerResume:
  "playing_started s \<Longrightarrow> playing_started (snd (onManagerResume m s))"
  by (simp add: snd_onManagerResume playing_started_resume)

lemma playing_started_sound_set: "playing_started s \<Longrightarrow> playing_started (sound_set v s)"
  by (simp add: sound_set_def Let_def isStopped_def playing_started_stop
      playing_started_createSource)

lemma playing_started_currentTime_get:
  "playing_started s \<Longrightarrow> playing_started (snd (currentTime_get m s))"
  by (simp add: playing_started_cong [of "snd (currentTime_get m s)" s])

lemma playing_started_currentTime_set:
  "playing_started s \<Longrightarrow> playing_started (snd (currentTime_set m v s))"
  by (simp add: snd_currentTime_set playing_started_stop playing_started_play
      split: sum.splits)

lemma playing_started_startTime_set:
  "playing_started s \<Longrightarrow> playing_started (snd (startTime_set m v s))"
  by (simp add: snd_startTime_set playing_started_stop playing_started_play)

lemma playing_started_duration_set:
  "playing_started s \<Longrightarrow> playing_started (snd (duration_set m v s))"
  by (simp add: snd_duration_set playing_started_stop playing_started_play)

lemma playing_started_step: "playing_started s \<Longrightarrow> playing_started (snd (step m x s))"
  by (cases x)
     (simp_all add: playing_started_play playing_started_pause playing_started_resume
        playing_started_stop playing_started_onEnded playing_started_sound_set
        playing_started_currentTime_get playing_started_currentTime_set
        playing_started_startTime_set playing_started_duration_set
        playing_started_onManagerSuspend playing_started_onManagerResume
        playing_started_onManagerDestroy onManagerVolumeChange_def
        playing_started_cong [of "snd (setExternalNodes f l s)" s for f l]
        playing_started_cong [of "snd (clearExternalNodes s)" s])

lemma playing_started_run: "playing_started (run tr (SoundInstance m sd opts))"
proof -
  have "playing_started s \<Longrightarrow> playing_started (run tr s)" for s
  proof (induction tr arbitrary: s)
    case Nil
    then show ?case by simp
  next
    case (Cons a tr)
    obtain m' x where a: "a = (m', x)" by (cases a)
    from Cons.prems have "playing_started (snd (step m' x s))" by (rule playing_started_step)
    then have "playing_started (run tr (snd (step m' x s)))" by (rule Cons.IH)
    with a show ?case by simp
  qed
  moreover have "playing_started (SoundInstance m sd opts)"
    by (simp add: playing_started_not_playing)
  ultimately show ?thesis .
qed

section \<open>End notifications\<close>

text \<open>The instances \<open>ended10\<close> and \<open>replayed10\<close>, field by field.\<close>

lemma ended10_eq:
  "ended10 =
     \<lparr>u_volume = Fin 1, u_pitch = Fin 1, u_loop = False, u_sound = Some sound10,
      u_state = Stopped, u_suspended = False, u_suspendEndEvent = True,
      u_suspendInstanceEvents = False, u_startTime = Fin 0, u_duration = Fin 0,
      u_startedAt = Fin 0, u_startOffset = None, u_currentTime = Fin 0,
      u_calculatedCurrentTimeAt = Fin 1, u_playWhenLoaded = False, u_firstNode = None,
      u_lastNode = None,
      source = Some \<lparr>src_id = 1, started = False, buffer_duration = Fin 10, loopStart = Fin 0,
                       loopEnd = Fin 0, src_loop = False, playbackRate = Fin 1\<rparr>,
      gain_value = Fin 1, edges = {(Source 1, Gain), (Source 0, Gain), (Gain, Destination)},
      subscribed = False, fired = [EvReady, EvPlay, EvEnd, EvReady, EvStop],
      calls = [Connect Gain Destination, Connect (Source 0) Gain, Start 0 (Fin 0) None,
               StopNow 0, Connect (Source 1) Gain],
      next_source = Suc (Suc 0)\<rparr>"
  by (simp add: ended10_def played10_eq onEnded_def stop_def sound10_def
      source_stop_def createSource_def connect_edge_def inputNode_def
      fire_def number_defs Let_def)

lemma replayed10_eq:
  "replayed10 =
     \<lparr>u_volume = Fin 1, u_pitch = Fin 1, u_loop = False, u_sound = Some sound10,
      u_state = Playing, u_suspended = False, u_suspendEndEvent = True,
      u_suspendInstanceEvents = False, u_startTime = Fin 0, u_duration = Fin 0,
      u_startedAt = Fin 12, u_startOffset = None, u_currentTime = Fin 0,
      u_calculatedCurrentTimeAt = Fin 12, u_playWhenLoaded = False, u_firstNode = None,
      u_lastNode = None,
      source = Some \<lparr>src_id = 1, started = True, buffer_duration = Fin 10, loopStart = Fin 0,
                       loopEnd = Fin 0, src_loop = False, playbackRate = Fin 1\<rparr>,
      gain_value = Fin 1, edges = {(Source 1, Gain), (Source 0, Gain), (Gain, Destination)},
      subscribed = True, fired = [EvReady, EvPlay, EvEnd, EvReady, EvStop, EvPlay],
      calls = [Connect Gain Destination, Connect (Source 0) Gain, Start 0 (Fin 0) None,
               StopNow 0, Connect (Source 1) Gain, Start 1 (Fin 0) None],
      next_source = Suc (Suc 0)\<rparr>"
  by (simp add: replayed10_def ended10_eq manager_at_def sound10_def play_def
      source_start_def start_error_def volume_set_def loop_set_def pitch_set_def clamp_def
      duration_get_def fire_def number_defs Let_def)

text \<open>
  C4 (a natural end after a natural end). The instance \<open>fresh10\<close> is played with the
  manager's clock at 1, and its source plays the ten seconds to their end. The end
  notification, at 11, finds \<open>_suspendEndEvent\<close> clear: it fires \<open>end\<close> and calls
  \<open>stop()\<close>, which leaves the instance Stopped, and which sets \<open>_suspendEndEvent\<close>. The
  source had ended already, so no notification follows that \<open>stop()\<close>, and the flag is
  still set after \<open>play()\<close> at 12. The second source plays to its end as well; its end
  notification, at 22, with no \<open>stop()\<close>, \<open>pause()\<close> or seek since that \<open>play()\<close>, only
  clears the flag: no \<open>end\<close> is fired, nothing is stopped and the instance stays Playing
  with a source that has ended.
\<close>

theorem second_natural_end_swallowed:
  "run [(manager_at 1, Play), (manager_at 11, Ended), (manager_at 12, Play)] fresh10 = replayed10
   \<and> run [(manager_at 1, Play), (manager_at 11, Ended), (manager_at 12, Play),
           (manager_at 22, Ended)] fresh10 = onEnded replayed10
   \<and> \<not> u_suspendEndEvent played10
   \<and> fired played10 = [EvReady, EvPlay]
   \<and> fired ended10 = [EvReady, EvPlay, EvEnd, EvReady, EvStop]
   \<and> u_state ended10 = Stopped
   \<and> u_suspendEndEvent ended10
   \<and> fired replayed10 = [EvReady, EvPlay, EvEnd, EvReady, EvStop, EvPlay]
   \<and> u_state replayed10 = Playing
   \<and> u_suspendEndEvent replayed10
   \<and> fired (onEnded replayed10) = fired replayed10
   \<and> calls (onEnded replayed10) = calls replayed10
   \<and> u_state (onEnded replayed10) = Playing
   \<and> \<not> u_suspendEndEvent (onEnded replayed10)"
proof -
  have "run [(manager_at 1, Play), (manager_at 11, Ended), (manager_at 12, Play)] fresh10
        = replayed10"
    by (simp add: played10_def ended10_def replayed10_def)
  moreover have "run [(manager_at 1, Play), (manager_at 11, Ended), (manager_at 12, Play),
                      (manager_at 22, Ended)] fresh10 = onEnded replayed10"
    by (simp add: played10_def ended10_def replayed10_def)
  moreover have "\<not> u_suspendEndEvent played10" "fired played10 = [EvReady, EvPlay]"
    by (simp_all add: played10_eq)
  moreover have "fired ended10 = [EvReady, EvPlay, EvEnd, EvReady, EvStop]"
    "u_state ended10 = Stopped" "u_suspendEndEvent ended10"
    by (simp_all add: ended10_eq)
  moreover have "fired replayed10 = [EvReady, EvPlay, EvEnd, EvReady, EvStop, EvPlay]"
    "u_state replayed10 = Playing" "u_suspendEndEvent replayed10"
    by (simp_all add: replayed10_eq)
  moreover have "fired (onEnded replayed10) = fired replayed10"
    "calls (onEnded replayed10) = calls replayed10"
    "u_state (onEnded replayed10) = Playing"
    "\<not> u_suspendEndEvent (onEnded replayed10)"
    by (simp_all add: onEnded_def replayed10_eq)
  ultimately show ?thesis by blast
qed

section \<open>Rewiring the external chain\<close>

text \<open>A node of the caller's chain is none of the instance's own nodes.\<close>

lemma is_externalD:
  "is_external f \<Longrightarrow> has_outputs f \<and> has_inputs f \<and> f \<noteq> Destination \<and> f \<noteq> Gain"
  by (cases f) simp_all

text \<open>
  \<open>setExternalNodes\<close> with such arguments and \<open>clearExternalNodes\<close> keep the wiring,
  never disconnect an edge that is not there and never connect a node that cannot be
  connected.
\<close>

lemma chain_ok_set:
  assumes "chain_ok s" and "is_external f"
    and "le = (case l of None \<Rightarrow> f | Some l' \<Rightarrow> l')" and "is_external le"
  shows "fst (setExternalNodes (Some f) l s) = Inr ()"
    and "chain_ok (snd (setExternalNodes (Some f) l s))"
    and "u_firstNode (snd (setExternalNodes (Some f) l s)) = Some f"
    and "u_lastNode (snd (setExternalNodes (Some f) l s)) = Some le"
proof -
  note f = is_externalD [OF assms(2)] and le = is_externalD [OF assms(4)]
  show "fst (setExternalNodes (Some f) l s) = Inr ()"
    using assms f le
    by (cases "u_firstNode s"; cases "u_lastNode s")
       (auto simp: setExternalNodes_def disconnect_def connect_def connect_edge_def
          chain_ok_def Let_def connectorNode_def)
  show "chain_ok (snd (setExternalNodes (Some f) l s))"
    using assms f le
    by (cases "u_firstNode s"; cases "u_lastNode s")
       (auto simp: setExternalNodes_def disconnect_def connect_def connect_edge_def
          chain_ok_def Let_def connectorNode_def)
  show "u_firstNode (snd (setExternalNodes (Some f) l s)) = Some f"
    using assms f le
    by (cases "u_firstNode s"; cases "u_lastNode s")
       (auto simp: setExternalNodes_def disconnect_def connect_def connect_edge_def
          chain_ok_def Let_def connectorNode_def)
  show "u_lastNode (snd (setExternalNodes (Some f) l s)) = Some le"
    using assms f le
    by (cases "u_firstNode s"; cases "u_lastNode s")
       (auto simp: setExternalNodes_def disconnect_def connect_def connect_edge_def
          chain_ok_def Let_def connectorNode_def)
qed


lemma chain_ok_clear:
  assumes "chain_ok s"
  shows "fst (clearExternalNodes s) = Inr ()"
    and "chain_ok (snd (clearExternalNodes s))"
    and "u_firstNode (snd (clearExternalNodes s)) = None"
    and "u_lastNode (snd (clearExternalNodes s)) = None"
proof -
  show "fst (clearExternalNodes s) = Inr ()"
    using assms
    by (cases "u_firstNode s"; cases "u_lastNode s")
       (auto simp: clearExternalNodes_def disconnect_def connect_def connect_edge_def
          chain_ok_def Let_def connectorNode_def)
  show "chain_ok (snd (clearExternalNodes s))"
    using assms
    by (cases "u_firstNode s"; cases "u_lastNode s")
       (auto simp: clearExternalNodes_def disconnect_def connect_def connect_edge_def
          chain_ok_def Let_def connectorNode_def)
  show "u_firstNode (snd (clearExternalNodes s)) = None"
    using assms
    by (cases "u_firstNode s"; cases "u_lastNode s")
       (auto simp: clearExternalNodes_def disconnect_def connect_def connect_edge_def
          chain_ok_def Let_def connectorNode_def)
  show "u_lastNode (snd (clearExternalNodes s)) = None"
    using assms
    by (cases "u_firstNode s"; cases "u_lastNode s")
       (auto simp: clearExternalNodes_def disconnect_def connect_def connect_edge_def
          chain_ok_def Let_def connectorNode_def)
qed

text \<open>
  A new source is connected to the gain node: no edge out of the gain node and no edge
  into the destination is made or removed.
\<close>

lemma edges_createSource [simp]:
  "((Gain, b) \<in> edges (createSource s)) = ((Gain, b) \<in> edges s)"
  "((a, Destination) \<in> edges (createSource s)) = ((a, Destination) \<in> edges s)"
  by (simp_all add: createSource_def Let_def connect_edge_def fire_def inputNode_def
      split: option.splits)

lemma edges_stop [simp]:
  "((Gain, b) \<in> edges (snd (stop s))) = ((Gain, b) \<in> edges s)"
  "((a, Destination) \<in> edges (snd (stop s))) = ((a, Destination) \<in> edges s)"
  by (simp_all add: stop_def Let_def)

lemma edges_pause [simp]:
  "((Gain, b) \<in> edges (snd (pause m s))) = ((Gain, b) \<in> edges s)"
  "((a, Destination) \<in> edges (snd (pause m s))) = ((a, Destination) \<in> edges s)"
  by (simp_all add: pause_def Let_def)

lemma edges_onManagerSuspend [simp]:
  "((Gain, b) \<in> edges (onManagerSuspend m s)) = ((Gain, b) \<in> edges s)"
  "((a, Destination) \<in> edges (onManagerSuspend m s)) = ((a, Destination) \<in> edges s)"
  by (simp_all add: onManagerSuspend_def)

lemma edges_play [simp]:
  "((Gain, b) \<in> edges (snd (play m s))) = ((Gain, b) \<in> edges s)"
  "((a, Destination) \<in> edges (snd (play m s))) = ((a, Destination) \<in> edges s)"
  by (simp_all add: play_def Let_def source_start_def split: option.splits)

lemma edges_onEnded [simp]:
  "((Gain, b) \<in> edges (onEnded s)) = ((Gain, b) \<in> edges s)"
  "((a, Destination) \<in> edges (onEnded s)) = ((a, Destination) \<in> edges s)"
  by (simp_all add: onEnded_def)

lemma edges_sound_set [simp]:
  "((Gain, b) \<in> edges (sound_set v s)) = ((Gain, b) \<in> edges s)"
  "((a, Destination) \<in> edges (sound_set v s)) = ((a, Destination) \<in> edges s)"
  by (simp_all add: sound_set_def Let_def)

lemma edges_currentTime_set [simp]:
  "((Gain, b) \<in> edges (snd (currentTime_set m v s))) = ((Gain, b) \<in> edges s)"
  "((a, Destination) \<in> edges (snd (currentTime_set m v s))) = ((a, Destination) \<in> edges s)"
  by (simp_all add: snd_currentTime_set split: sum.splits)

lemma edges_startTime_set [simp]:
  "((Gain, b) \<in> edges (snd (startTime_set m v s))) = ((Gain, b) \<in> edges s)"
  "((a, Destination) \<in> edges (snd (startTime_set m v s))) = ((a, Destination) \<in> edges s)"
  by (simp_all add: snd_startTime_set)

lemma edges_duration_set [simp]:
  "((Gain, b) \<in> edges (snd (duration_set m v s))) = ((Gain, b) \<in> edges s)"
  "((a, Destination) \<in> edges (snd (duration_set m v s))) = ((a, Destination) \<in> edges s)"
  by (simp_all add: snd_duration_set)

lemma chain_ok_step:
  assumes "chain_ok s" and "ext_args_ok x"
  shows "chain_ok (snd (step m x s))"
proof (cases x)
  case (SetExternalNodes f l)
  with assms(2) obtain f' where f: "f = Some f'" "is_external f'"
    "is_external (case l of None \<Rightarrow> f' | Some l' \<Rightarrow> l')"
    by (auto split: option.splits)
  from chain_ok_set(2) [OF assms(1) f(2) refl f(3)] show ?thesis
    by (simp add: SetExternalNodes f(1))
next
  case ClearExternalNodes
  with chain_ok_clear(2) [OF assms(1)] show ?thesis by simp
qed (use assms(1) in \<open>simp_all add: chain_ok_def connectorNode_def\<close>)

text \<open>
  \<open>start\<close> raises neither an \<open>InvalidAccessError\<close> nor an \<open>IndexSizeError\<close>, so the
  members that do not rewire the chain raise neither.
\<close>

lemma source_start_errors:
  "source_start offset dur s = Inl e \<Longrightarrow> e \<noteq> InvalidAccessError \<and> e \<noteq> IndexSizeError"
  by (auto simp: source_start_def start_error_def split: option.splits if_splits)

lemma fst_play:
  "fst (play m s) \<noteq> Inl InvalidAccessError" "fst (play m s) \<noteq> Inl IndexSizeError"
  by (auto simp: play_def Let_def dest: source_start_errors split: option.splits sum.splits)

lemma fst_resume:
  "fst (resume m s) \<noteq> Inl InvalidAccessError" "fst (resume m s) \<noteq> Inl IndexSizeError"
  by (auto simp: resume_def Let_def dest: source_start_errors split: option.splits sum.splits)

lemma fst_step:
  "fst (step m Play s) = (case fst (play m s) of Inl e \<Rightarrow> Some e | Inr b \<Rightarrow> None)"
  "fst (step m Resume s) = (case fst (resume m s) of Inl e \<Rightarrow> Some e | Inr b \<Rightarrow> None)"
  "fst (step m (SetExternalNodes f l) s)
     = (case fst (setExternalNodes f l s) of Inl e \<Rightarrow> Some e | Inr u \<Rightarrow> None)"
  "fst (step m ClearExternalNodes s)
     = (case fst (clearExternalNodes s) of Inl e \<Rightarrow> Some e | Inr u \<Rightarrow> None)"
  "fst (step m (SetCurrentTime v) s)
     = (case fst (currentTime_set m v s) of Inl e \<Rightarrow> Some e | Inr u \<Rightarrow> None)"
  "fst (step m (SetStartTime v) s)
     = (case fst (startTime_set m v s) of Inl e \<Rightarrow> Some e | Inr u \<Rightarrow> None)"
  "fst (step m (SetDuration v) s)
     = (case fst (duration_set m v s) of Inl e \<Rightarrow> Some e | Inr u \<Rightarrow> None)"
  "fst (step m ManagerResume s)
     = (if subscribed s
        then (case fst (onManagerResume m s) of Inl e \<Rightarrow> Some e | Inr u \<Rightarrow> None)
        else None)"
  by (simp_all add: step.simps split: prod.splits sum.splits)

lemma fst_currentTime_set:
  "fst (currentTime_set m v s) \<noteq> Inl InvalidAccessError"
  "fst (currentTime_set m v s) \<noteq> Inl IndexSizeError"
  using fst_play
  by (simp_all add: currentTime_set_def Let_def split: prod.splits sum.splits)
     (metis fst_conv)+

lemma fst_startTime_set:
  "fst (startTime_set m v s) \<noteq> Inl InvalidAccessError"
  "fst (startTime_set m v s) \<noteq> Inl IndexSizeError"
  using fst_play
  by (simp_all add: startTime_set_def Let_def split: prod.splits sum.splits)
     (metis fst_conv)+

lemma fst_duration_set:
  "fst (duration_set m v s) \<noteq> Inl InvalidAccessError"
  "fst (duration_set m v s) \<noteq> Inl IndexSizeError"
  using fst_play
  by (simp_all add: duration_set_def Let_def split: prod.splits sum.splits)
     (metis fst_conv)+

lemma fst_onManagerResume:
  "fst (onManagerResume m s) \<noteq> Inl InvalidAccessError"
  "fst (onManagerResume m s) \<noteq> Inl IndexSizeError"
  using fst_resume
  by (simp_all add: onManagerResume_def split: prod.splits sum.splits)
     (metis fst_conv)+

lemma no_graph_error_step:
  assumes "chain_ok s" and "ext_args_ok x"
  shows "fst (step m x s) \<noteq> Some InvalidAccessError \<and> fst (step m x s) \<noteq> Some IndexSizeError"
proof (cases x)
  case Play
  with fst_play [of m s] show ?thesis
    by (auto simp: fst_step split: sum.splits)
next
  case Resume
  with fst_resume [of m s] show ?thesis
    by (auto simp: fst_step split: sum.splits)
next
  case (SetExternalNodes f l)
  with assms(2) obtain f' where f: "f = Some f'" "is_external f'"
    "is_external (case l of None \<Rightarrow> f' | Some l' \<Rightarrow> l')"
    by (auto split: option.splits)
  from chain_ok_set(1) [OF assms(1) f(2) refl f(3)] show ?thesis
    by (simp add: SetExternalNodes f(1) fst_step)
next
  case ClearExternalNodes
  with chain_ok_clear(1) [OF assms(1)] show ?thesis
    by (simp add: fst_step)
next
  case (SetCurrentTime v)
  with fst_currentTime_set [of m v s] show ?thesis
    by (auto simp: fst_step split: sum.splits)
next
  case (SetStartTime v)
  with fst_startTime_set [of m v s] show ?thesis
    by (auto simp: fst_step split: sum.splits)
next
  case (SetDuration v)
  with fst_duration_set [of m v s] show ?thesis
    by (auto simp: fst_step split: sum.splits)
next
  case ManagerResume
  with fst_onManagerResume [of m s] show ?thesis
    by (auto simp: fst_step split: sum.splits)
qed (simp_all add: step.simps)

lemma chain_ok_run:
  "chain_ok s \<Longrightarrow> \<forall>(m, x) \<in> set tr. ext_args_ok x
   \<Longrightarrow> chain_ok (run tr s) \<and> InvalidAccessError \<notin> set (raised tr s)
       \<and> IndexSizeError \<notin> set (raised tr s)"
proof (induction tr arbitrary: s)
  case Nil
  then show ?case by simp
next
  case (Cons a tr)
  obtain m x where a: "a = (m, x)" by (cases a)
  from Cons.prems(2) a have x: "ext_args_ok x" and tr: "\<forall>(m, x) \<in> set tr. ext_args_ok x"
    by auto
  have ok: "chain_ok (snd (step m x s))"
    using Cons.prems(1) x by (rule chain_ok_step)
  have here: "fst (step m x s) \<noteq> Some InvalidAccessError \<and> fst (step m x s) \<noteq> Some IndexSizeError"
    using Cons.prems(1) x by (rule no_graph_error_step)
  from Cons.IH [OF ok tr] here show ?case
    by (auto simp: a split: option.splits)
qed

lemma run_append: "run (xs @ ys) s = run ys (run xs s)"
  by (induction xs arbitrary: s) auto

lemma chain_ok_SoundInstance: "chain_ok (SoundInstance m sd opts)"
  by (simp add: chain_ok_def SoundInstance_def initializeNodes_def connect_edge_def
      connectorNode_def)

text \<open>
  C5 (rewiring the external chain). Take any sequence of operations from the
  constructor on (\<open>setExternalNodes\<close> and \<open>clearExternalNodes\<close> calls, with any other
  operations in between) in which every \<open>setExternalNodes\<close> call is given nodes of a chain
  that the caller created: a first node, and a last node or none. Then no \<open>disconnect\<close>
  raises: every edge disconnected is connected at that time. No \<open>connect\<close> raises either.
  And when the sequence ends with \<open>setExternalNodes(C, D)\<close>, the stored nodes are \<open>C\<close>
  and \<open>D\<close>, the connector's only edge goes to \<open>C\<close>, and the only edge into the
  destination comes from \<open>D\<close> (the edges from \<open>C\<close> to \<open>D\<close> are the caller's).
\<close>

theorem external_nodes_rewired_safely:
  assumes "\<forall>(m, x) \<in> set tr. ext_args_ok x"
  shows "InvalidAccessError \<notin> set (raised tr (SoundInstance m0 sd opts))
       \<and> IndexSizeError \<notin> set (raised tr (SoundInstance m0 sd opts))
       \<and> (\<forall>tr' m C D. tr = tr' @ [(m, SetExternalNodes (Some C) (Some D))] \<longrightarrow>
            getExternalNodes (run tr (SoundInstance m0 sd opts)) = (Some C, Some D)
            \<and> {b. (connectorNode, b) \<in> edges (run tr (SoundInstance m0 sd opts))} = {C}
            \<and> {a. (a, Destination) \<in> edges (run tr (SoundInstance m0 sd opts))} = {D})"
proof (intro conjI allI impI)
  show "InvalidAccessError \<notin> set (raised tr (SoundInstance m0 sd opts))"
    using chain_ok_run [OF chain_ok_SoundInstance assms] by simp
next
  show "IndexSizeError \<notin> set (raised tr (SoundInstance m0 sd opts))"
    using chain_ok_run [OF chain_ok_SoundInstance assms] by simp
next
  fix tr' m C D
  assume tr: "tr = tr' @ [(m, SetExternalNodes (Some C) (Some D))]"
  let ?s = "run tr' (SoundInstance m0 sd opts)"
  from assms tr have v: "\<forall>(m, x) \<in> set tr'. ext_args_ok x"
    and cd: "is_external C" "is_external D"
    by auto
  have ok: "chain_ok ?s"
    using chain_ok_run [OF chain_ok_SoundInstance v] by simp
  have r: "run tr (SoundInstance m0 sd opts) = snd (setExternalNodes (Some C) (Some D) ?s)"
    by (simp add: tr run_append)
  have d: "D = (case Some D of None \<Rightarrow> C | Some l' \<Rightarrow> l')" by simp
  note res = chain_ok_set [OF ok cd(1) d cd(2)]
  show "getExternalNodes (run tr (SoundInstance m0 sd opts)) = (Some C, Some D)"
    using res(3,4) by (simp add: r getExternalNodes_def)
  show "{b. (connectorNode, b) \<in> edges (run tr (SoundInstance m0 sd opts))} = {C}"
    using res(2,3) by (auto simp: r chain_ok_def)
  show "{a. (a, Destination) \<in> edges (run tr (SoundInstance m0 sd opts))} = {D}"
    using res(2,4) by (auto simp: r chain_ok_def)
qed

text \<open>\<open>setExternalNodes(A, B)\<close> followed by \<open>setExternalNodes(C, D)\<close> on a fresh instance.\<close>

theorem external_nodes_rewired_safely_witness:
  "ext_args_ok (SetExternalNodes (Some (External 1)) (Some (External 2)))
   \<and> ext_args_ok (SetExternalNodes (Some (External 3)) (Some (External 4)))
   \<and> InvalidAccessError \<notin> set (raised
         [(manager_at 0, SetExternalNodes (Some (External 1)) (Some (External 2))),
          (manager_at 0, SetExternalNodes (Some (External 3)) (Some (External 4)))] fresh10)
   \<and> IndexSizeError \<notin> set (raised
         [(manager_at 0, SetExternalNodes (Some (External 1)) (Some (External 2))),
          (manager_at 0, SetExternalNodes (Some (External 3)) (Some (External 4)))] fresh10)
   \<and> getExternalNodes (run
         [(manager_at 0, SetExternalNodes (Some (External 1)) (Some (External 2))),
          (manager_at 0, SetExternalNodes (Some (External 3)) (Some (External 4)))] fresh10)
       = (Some (External 3), Some (External 4))
   \<and> {b. (connectorNode, b) \<in> edges (run
         [(manager_at 0, SetExternalNodes (Some (External 1)) (Some (External 2))),
          (manager_at 0, SetExternalNodes (Some (External 3)) (Some (External 4)))] fresh10)}
       = {External 3}
   \<and> {a. (a, Destination) \<in> edges (run
         [(manager_at 0, SetExternalNodes (Some (External 1)) (Some (External 2))),
          (manager_at 0, SetExternalNodes (Some (External 3)) (Some (External 4)))] fresh10)}
       = {External 4}"
proof -
  let ?a = "(manager_at 0, SetExternalNodes (Some (External 1)) (Some (External 2)))"
  let ?b = "(manager_at 0, SetExternalNodes (Some (External 3)) (Some (External 4)))"
  have v: "\<forall>(m, x) \<in> set [?a, ?b]. ext_args_ok x"
    by simp
  note th = external_nodes_rewired_safely [OF v, of "manager_at 0" "Some sound10" no_options]
  from th have safe: "InvalidAccessError \<notin> set (raised [?a, ?b] fresh10)"
    unfolding fresh10_def by (rule conjunct1)
  from th have rest: "IndexSizeError \<notin> set (raised [?a, ?b] fresh10)
    \<and> (\<forall>tr' m C D. [?a, ?b] = tr' @ [(m, SetExternalNodes (Some C) (Some D))] \<longrightarrow>
      getExternalNodes (run [?a, ?b] fresh10) = (Some C, Some D)
      \<and> {b. (connectorNode, b) \<in> edges (run [?a, ?b] fresh10)} = {C}
      \<and> {a. (a, Destination) \<in> edges (run [?a, ?b] fresh10)} = {D})"
    unfolding fresh10_def by (rule conjunct2)
  from rest have safe2: "IndexSizeError \<notin> set (raised [?a, ?b] fresh10)"
    by (rule conjunct1)
  from rest have "\<forall>tr' m C D. [?a, ?b] = tr' @ [(m, SetExternalNodes (Some C) (Some D))] \<longrightarrow>
      getExternalNodes (run [?a, ?b] fresh10) = (Some C, Some D)
      \<and> {b. (connectorNode, b) \<in> edges (run [?a, ?b] fresh10)} = {C}
      \<and> {a. (a, Destination) \<in> edges (run [?a, ?b] fresh10)} = {D}"
    by (rule conjunct2)
  then have "[?a, ?b] = [?a] @ [(manager_at 0, SetExternalNodes (Some (External 3)) (Some (External 4)))] \<longrightarrow>
      getExternalNodes (run [?a, ?b] fresh10) = (Some (External 3), Some (External 4))
      \<and> {b. (connectorNode, b) \<in> edges (run [?a, ?b] fresh10)} = {External 3}
      \<and> {a. (a, Destination) \<in> edges (run [?a, ?b] fresh10)} = {External 4}"
    by blast
  then have path: "getExternalNodes (run [?a, ?b] fresh10) = (Some (External 3), Some (External 4))
      \<and> {b. (connectorNode, b) \<in> edges (run [?a, ?b] fresh10)} = {External 3}
      \<and> {a. (a, Destination) \<in> edges (run [?a, ?b] fresh10)} = {External 4}"
    by simp
  have args: "ext_args_ok (SetExternalNodes (Some (External 1)) (Some (External 2)))
      \<and> ext_args_ok (SetExternalNodes (Some (External 3)) (Some (External 4)))"
    by simp
  from args safe safe2 path show ?thesis by blast
qed

section \<open>Clearing the external chain\<close>

text \<open>
  C8 (clearing the external chain). Take any sequence of operations from the constructor
  on in which every \<open>setExternalNodes\<close> call is given nodes of a chain that the caller
  created: a first node, and a last node or none. Then \<open>clearExternalNodes()\<close> raises
  nothing, nulls both stored nodes, and leaves the connector with the destination as its
  only edge and the destination with the connector as its only incoming edge. If no
  chain is installed at that point (none was ever set, or it was cleared), the call
  changes nothing but the log of calls, to which it adds one \<open>connect\<close> and no
  \<open>disconnect\<close>; and a \<open>setExternalNodes\<close> with such arguments followed by
  \<open>clearExternalNodes()\<close> gives back the same set of edges.
\<close>

theorem clear_restores_direct_path:
  assumes "\<forall>(m, x) \<in> set tr. ext_args_ok x"
  shows "fst (clearExternalNodes (run tr (SoundInstance m0 sd opts))) = Inr ()
    \<and> getExternalNodes (snd (clearExternalNodes (run tr (SoundInstance m0 sd opts))))
        = (None, None)
    \<and> {b. (connectorNode, b)
            \<in> edges (snd (clearExternalNodes (run tr (SoundInstance m0 sd opts))))}
        = {Destination}
    \<and> {a. (a, Destination)
            \<in> edges (snd (clearExternalNodes (run tr (SoundInstance m0 sd opts))))}
        = {connectorNode}
    \<and> (getExternalNodes (run tr (SoundInstance m0 sd opts)) = (None, None) \<longrightarrow>
         snd (clearExternalNodes (run tr (SoundInstance m0 sd opts)))
           = (run tr (SoundInstance m0 sd opts))
               \<lparr>calls := calls (run tr (SoundInstance m0 sd opts))
                           @ [Connect connectorNode Destination]\<rparr>
         \<and> (\<forall>f l. ext_args_ok (SetExternalNodes (Some f) l) \<longrightarrow>
               fst (setExternalNodes (Some f) l (run tr (SoundInstance m0 sd opts))) = Inr ()
               \<and> fst (clearExternalNodes
                        (snd (setExternalNodes (Some f) l (run tr (SoundInstance m0 sd opts)))))
                   = Inr ()
               \<and> edges (snd (clearExternalNodes
                        (snd (setExternalNodes (Some f) l (run tr (SoundInstance m0 sd opts))))))
                   = edges (run tr (SoundInstance m0 sd opts))))"
proof -
  let ?s = "run tr (SoundInstance m0 sd opts)"
  have ok: "chain_ok ?s"
    using chain_ok_run [OF chain_ok_SoundInstance assms] by simp
  note c = chain_ok_clear [OF ok]
  have 1: "fst (clearExternalNodes ?s) = Inr ()" by (rule c(1))
  have 2: "getExternalNodes (snd (clearExternalNodes ?s)) = (None, None)"
    using c(3,4) by (simp add: getExternalNodes_def)
  have 3: "{b. (connectorNode, b) \<in> edges (snd (clearExternalNodes ?s))} = {Destination}"
    using c(2,3) by (auto simp: chain_ok_def)
  have 4: "{a. (a, Destination) \<in> edges (snd (clearExternalNodes ?s))} = {connectorNode}"
    using c(2,4) by (auto simp: chain_ok_def)
  have 5: "snd (clearExternalNodes ?s)
      = ?s\<lparr>calls := calls ?s @ [Connect connectorNode Destination]\<rparr>"
    if none: "getExternalNodes ?s = (None, None)"
  proof -
    from ok none have "(connectorNode, Destination) \<in> edges ?s"
      by (simp add: chain_ok_def getExternalNodes_def)
    then have "insert (connectorNode, Destination) (edges ?s) = edges ?s"
      by (rule insert_absorb)
    with none show ?thesis
      by (simp add: clearExternalNodes_def connect_own_nodes connect_edge_def
          getExternalNodes_def)
  qed
  have 6: "fst (setExternalNodes (Some f) l ?s) = Inr ()
      \<and> fst (clearExternalNodes (snd (setExternalNodes (Some f) l ?s))) = Inr ()
      \<and> edges (snd (clearExternalNodes (snd (setExternalNodes (Some f) l ?s)))) = edges ?s"
    if none: "getExternalNodes ?s = (None, None)"
      and args: "ext_args_ok (SetExternalNodes (Some f) l)" for f l
  proof -
    from args have f: "is_external f"
      and l: "is_external (case l of None \<Rightarrow> f | Some l' \<Rightarrow> l')"
      by (simp_all split: option.splits)
    note st = chain_ok_set [OF ok f refl l]
    note cl = chain_ok_clear [OF st(2)]
    have "edges (snd (clearExternalNodes (snd (setExternalNodes (Some f) l ?s)))) = edges ?s"
      using ok none f l is_externalD [OF f] is_externalD [OF l]
      by (cases l)
         (auto simp: clearExternalNodes_def setExternalNodes_def disconnect_def connect_def
            connect_edge_def chain_ok_def getExternalNodes_def Let_def connectorNode_def)
    with st(1) cl(1) show ?thesis by simp
  qed
  from 1 2 3 4 5 6 show ?thesis by blast
qed

text \<open>
  On a fresh instance: \<open>clearExternalNodes()\<close> after one \<open>setExternalNodes\<close>, on the
  instance as constructed, and the round trip.
\<close>

theorem clear_restores_direct_path_witness:
  "ext_args_ok (SetExternalNodes (Some (External 1)) (Some (External 2)))
   \<and> fst (clearExternalNodes
        (run [(manager_at 0, SetExternalNodes (Some (External 1)) (Some (External 2)))] fresh10))
       = Inr ()
   \<and> getExternalNodes (snd (clearExternalNodes
        (run [(manager_at 0, SetExternalNodes (Some (External 1)) (Some (External 2)))] fresh10)))
       = (None, None)
   \<and> {b. (connectorNode, b) \<in> edges (snd (clearExternalNodes
        (run [(manager_at 0, SetExternalNodes (Some (External 1)) (Some (External 2)))] fresh10)))}
       = {Destination}
   \<and> getExternalNodes fresh10 = (None, None)
   \<and> snd (clearExternalNodes fresh10)
       = fresh10\<lparr>calls := calls fresh10 @ [Connect connectorNode Destination]\<rparr>
   \<and> edges (snd (clearExternalNodes
        (snd (setExternalNodes (Some (External 1)) (Some (External 2)) fresh10))))
       = edges fresh10"
proof -
  let ?a = "(manager_at 0, SetExternalNodes (Some (External 1)) (Some (External 2)))"
  have args: "ext_args_ok (SetExternalNodes (Some (External 1)) (Some (External 2)))"
    by simp
  then have v1: "\<forall>(m, x) \<in> set [?a]. ext_args_ok x" by simp
  have v0: "\<forall>(m, x) \<in> set ([] :: (manager \<times> op) list). ext_args_ok x" by simp
  have none: "getExternalNodes fresh10 = (None, None)"
    by (simp add: fresh10_eq getExternalNodes_def)
  have r0: "run [] fresh10 = fresh10" by simp
  note th1 = clear_restores_direct_path [OF v1, of "manager_at 0" "Some sound10" no_options,
      folded fresh10_def]
  note th0 = clear_restores_direct_path [OF v0, of "manager_at 0" "Some sound10" no_options,
      folded fresh10_def, unfolded r0]
  from th1 th0 args none show ?thesis by blast
qed

end
